theory Spec2Isabelle
  imports Complex_Main "HOL-Library.Log_Nat"
begin

section \<open>The plant-identification programs (main.py, papaboisfinal.py, plantpersona.py, plantid.py)\<close>

text \<open>
  The programs talk to three outside parties: the Telegram bot API, the Kindwise plant API
  and the OpenRouter chat-completion endpoint. None of them is code of the repository, so
  each call is given by an environment that says, for the call, whether it returns (and
  what) or raises. The theorems hold for every environment. What the handlers do to the
  world (the state storage of the bot, the files on disk, the calls they issue) is written
  out by explicit state passing.

  Conventions:
  \<^item> An exception derived from \<^verbatim>\<open>Exception\<close> is its message, the value of
    \<^verbatim>\<open>str(e)\<close>.
  \<^item> A Python string is the list of the bytes of its UTF-8 encoding; a literal outside
    ASCII is given by the bytes the source file holds for it, and a slice counts code
    points.
  \<^item> A float is a double: a sign and a magnitude, an infinity, or not a number.
\<close>

subsection \<open>Floats\<close>

text \<open>
  A double, by sign and magnitude (\<open>Finite True 0\<close> is the negative zero), and the two
  infinities and NaN.
\<close>

datatype pyfloat = Finite bool rat | Infinity bool | NaN

definition round_half_even :: "rat \<Rightarrow> int" where
  "round_half_even q =
     (let f = \<lfloor>q\<rfloor>; r = q - of_int f
      in if r < 1 / 2 then f else if 1 / 2 < r then f + 1 else if even f then f else f + 1)"

text \<open>
  The binade of a positive rational: the \<open>e\<close> with \<open>2 ^ e \<le> x < 2 ^ (e + 1)\<close>, found
  from the bit lengths of the numerator and the denominator.
\<close>

definition binade :: "rat \<Rightarrow> int" where
  "binade x =
     (let e0 = bitlen (fst (quotient_of x)) - bitlen (snd (quotient_of x))
      in if 2 powi e0 \<le> x then e0 else e0 - 1)"

text \<open>
  Rounding a magnitude to the nearest double, ties to the even significand: 53 bits of
  significand, the smallest exponent -1022 (below it the spacing stays \<open>2 ^ -1074\<close>),
  and overflow (\<open>None\<close>) from \<open>2 ^ 1024\<close> on.
\<close>

definition round_double :: "rat \<Rightarrow> rat option" where
  "round_double x =
     (if x = 0 then Some 0
      else
        let ulp = 2 powi (max (binade x) (- 1022) - 52);
            r = of_int (round_half_even (x / ulp)) * ulp
        in if r < 2 powi 1024 then Some r else None)"

text \<open>The double a decimal number of the response is read as.\<close>

definition float_of :: "rat \<Rightarrow> pyfloat" where
  "float_of q =
     (case round_double \<bar>q\<bar> of None \<Rightarrow> Infinity (q < 0) | Some x \<Rightarrow> Finite (q < 0) x)"

text \<open>\<^verbatim>\<open>val * 100\<close>, the product of doubles.\<close>

definition times100 :: "pyfloat \<Rightarrow> pyfloat" where
  "times100 x =
     (case x of
        Finite s a \<Rightarrow>
          (case round_double (\<bar>a\<bar> * 100) of None \<Rightarrow> Infinity s | Some y \<Rightarrow> Finite s y)
      | Infinity s \<Rightarrow> Infinity s
      | NaN \<Rightarrow> NaN)"



subsection \<open>Values\<close>

type_synonym exn = string

text \<open>A key of a Python dict that may be missing, hold \<^verbatim>\<open>None\<close>, or hold a value.\<close>

datatype 'a field = Absent | Null | Value 'a

text \<open>The dict of details the knowledge base returns; the code reads two keys of it.\<close>

record details =
  common_names :: "string list field"
  description :: "string field"

definition no_details :: details where
  "no_details = \<lparr>common_names = Absent, description = Absent\<rparr>"

text \<open>
  A suggestion of the identification response, a dataclass of the Kindwise client with the
  attributes id, name, probability, similar\_images and details; \<^verbatim>\<open>==\<close> on two
  suggestions compares all of them. \<^verbatim>\<open>suggestion.details\<close> is read by plantpersona.py
  only, after \<^verbatim>\<open>hasattr(suggestion, 'details')\<close>: it can be missing, \<^verbatim>\<open>None\<close>, or
  the dict of details.
\<close>

record suggestion =
  suggestion_id :: string
  name :: string
  probability :: pyfloat
  similar_images :: "string list option"
  suggestion_details :: "details field"

text \<open>
  The identification response as the code inspects it: \<^verbatim>\<open>hasattr(identification,
  'result')\<close>, \<^verbatim>\<open>hasattr(identification.result, 'classification')\<close>, then
  \<^verbatim>\<open>.suggestions\<close>. \<open>None\<close> stands for a missing attribute.
\<close>

record classification =
  suggestions :: "suggestion list"

record result =
  classification :: "classification option"

record identification =
  access_token :: string
  result :: "result option"

text \<open>The dict built for one candidate (\<^verbatim>\<open>plant_info\<close>).\<close>

record plant_info =
  info_name :: string
  confidence :: pyfloat
  info_details :: details
  healing_properties :: "string option"

text \<open>
  The dict \<^verbatim>\<open>identify_plant_from_path\<close> returns: \<^verbatim>\<open>{"error": message}\<close> is
  \<open>Error message\<close>, and \<^verbatim>\<open>{"success": True, "results": results}\<close> is
  \<open>Success results\<close>. The caller tells them apart by \<^verbatim>\<open>"error" in result\<close>.
\<close>

datatype ident_result = Error string | Success "plant_info list"

subsection \<open>Calls to the outside, and the environment that answers them\<close>

text \<open>
  Every call the code issues is recorded, in order, with what it raised (\<open>None\<close>: it
  returned). A call that raises has still been attempted.
\<close>

datatype call =
    Identify string
  | GetIdentification string
  | Search string
  | KbDetail string
  | AskQuestion string
  | Post string
  | ReplyTo string
  | EditMessageText string
  | GetFile string
  | DownloadFile string
  | OpenWrite string
  | Remove string

type_synonym event = "call \<times> exn option"

text \<open>
  The Kindwise client \<^verbatim>\<open>api\<close>. The calls made inside the loop over the candidates are
  indexed by the position of the candidate whose iteration makes them, so that two
  iterations may be answered differently.
\<close>

record plant_api =
  identify :: "exn + identification"
  search :: "nat \<Rightarrow> exn + string list"
  get_kb_detail :: "nat \<Rightarrow> exn + details"
  ask_question :: "nat \<Rightarrow> exn + string list option"

text \<open>
  \<open>search\<close> returns the access tokens of \<^verbatim>\<open>search_result.entities\<close>;
  \<open>ask_question\<close> returns the contents of \<^verbatim>\<open>healing_props.messages\<close>, or
  \<open>None\<close> when the answer is falsy or has no \<^verbatim>\<open>messages\<close>.
\<close>

subsection \<open>identify\_plant\_from\_path (main.py 38-102, papaboisfinal.py 134-196)\<close>

text \<open>Lines 75-82: the knowledge-base lookup of one candidate, inside the inner try.\<close>

definition lookup_details ::
  "plant_api \<Rightarrow> nat \<Rightarrow> suggestion \<Rightarrow> plant_info \<Rightarrow> exn option \<times> plant_info \<times> event list" where
  "lookup_details a i s info =
     (case search a i of
        Inl e \<Rightarrow> (Some e, info, [(Search (name s), Some e)])
      | Inr [] \<Rightarrow> (None, info, [(Search (name s), None)])
      | Inr (tok # _) \<Rightarrow>
          (case get_kb_detail a i of
             Inl e \<Rightarrow> (Some e, info, [(Search (name s), None), (KbDetail tok, Some e)])
           | Inr d \<Rightarrow>
               (None, info\<lparr>info_details := d\<rparr>,
                [(Search (name s), None), (KbDetail tok, None)])))"

text \<open>
  Lines 86-92: the healing-properties question. \<^verbatim>\<open>messages[-1]\<close> of an empty list
  raises IndexError.
\<close>

definition ask_healing ::
  "plant_api \<Rightarrow> string \<Rightarrow> nat \<Rightarrow> plant_info \<Rightarrow> exn option \<times> plant_info \<times> event list" where
  "ask_healing a token i info =
     (case ask_question a i of
        Inl e \<Rightarrow> (Some e, info, [(AskQuestion token, Some e)])
      | Inr None \<Rightarrow> (None, info, [(AskQuestion token, None)])
      | Inr (Some []) \<Rightarrow> (Some ''list index out of range'', info, [(AskQuestion token, None)])
      | Inr (Some (m # ms)) \<Rightarrow>
          (None, info\<lparr>healing_properties := Some (last (m # ms))\<rparr>,
           [(AskQuestion token, None)]))"

text \<open>
  Lines 67-96: the body of the loop. The inner \<^verbatim>\<open>except Exception\<close> logs and goes
  on, so what was stored in \<^verbatim>\<open>plant_info\<close> before the raise stays. The question is
  asked when \<^verbatim>\<open>suggestion == suggestions[0]\<close>, an equality of values.
\<close>

definition candidate_info ::
  "plant_api \<Rightarrow> string \<Rightarrow> suggestion \<Rightarrow> nat \<Rightarrow> suggestion \<Rightarrow> plant_info \<times> event list" where
  "candidate_info a token first i s =
     (let info0 = \<lparr>info_name = name s, confidence = probability s,
                    info_details = no_details, healing_properties = None\<rparr>;
          (e1, info1, t1) = lookup_details a i s info0
      in case e1 of
           Some _ \<Rightarrow> (info1, t1)
         | None \<Rightarrow>
             if s = first
             then (let (e2, info2, t2) = ask_healing a token i info1 in (info2, t1 @ t2))
             else (info1, t1))"

text \<open>Lines 65-96: the loop, \<^verbatim>\<open>results.append(plant_info)\<close> once per iteration.\<close>

fun collect ::
  "plant_api \<Rightarrow> string \<Rightarrow> suggestion \<Rightarrow> nat \<Rightarrow> suggestion list \<Rightarrow> plant_info list \<times> event list" where
  "collect a token first i [] = ([], [])"
| "collect a token first i (s # ss) =
     (let (info, t) = candidate_info a token first i s;
          (infos, ts) = collect a token first (Suc i) ss
      in (info # infos, t @ ts))"

text \<open>
  Lines 41-98, the body of the outer try. \<open>files\<close> maps the paths of the regular
  files on disk to their contents (\<^verbatim>\<open>Path(image_path).is_file()\<close>). An exception
  that leaves the body is \<open>Inl\<close>.
\<close>

definition identify_try ::
  "plant_api \<Rightarrow> (string \<rightharpoonup> string) \<Rightarrow> string \<Rightarrow> (exn + ident_result) \<times> event list" where
  "identify_try a files image_path =
     (if files image_path = None
      then (Inl (''Image file not found: '' @ image_path), [])
      else
        case identify a of
          Inl e \<Rightarrow> (Inl e, [(Identify image_path, Some e)])
        | Inr idn \<Rightarrow>
            (case result idn of
               None \<Rightarrow>
                 (Inr (Error ''No classification results available''),
                  [(Identify image_path, None)])
             | Some r \<Rightarrow>
                 (case classification r of
                    None \<Rightarrow>
                      (Inr (Error ''No classification results available''),
                       [(Identify image_path, None)])
                  | Some c \<Rightarrow>
                      (case suggestions c of
                         [] \<Rightarrow>
                           (Inr (Error ''No plant matches found''),
                            [(Identify image_path, None)])
                       | first # _ \<Rightarrow>
                           (let (rs, t) = collect a (access_token idn) first 0
                                            (take 3 (suggestions c))
                            in (Inr (Success rs), (Identify image_path, None) # t))))))"

text \<open>
  The function: the try, and lines 100-102, \<^verbatim>\<open>except Exception as e\<close>, which turns
  the exception into the error dict of its message.
\<close>

definition identify_plant_from_path ::
  "plant_api \<Rightarrow> (string \<rightharpoonup> string) \<Rightarrow> string \<Rightarrow> ident_result \<times> event list" where
  "identify_plant_from_path a files image_path =
     (case identify_try a files image_path of
        (Inl e, t) \<Rightarrow> (Error e, t)
      | (Inr d, t) \<Rightarrow> (d, t))"

text \<open>
  The conditions the function tests before it builds its results: whether the request
  raised, whether the response lacks \<^verbatim>\<open>result\<close> or \<^verbatim>\<open>classification\<close>, and the
  suggestions the loop runs over (none when there is no response to read them from).
\<close>

definition lacks_payload :: "plant_api \<Rightarrow> bool" where
  "lacks_payload a =
     (case identify a of
        Inl e \<Rightarrow> False
      | Inr idn \<Rightarrow>
          (case result idn of None \<Rightarrow> True | Some r \<Rightarrow> classification r = None))"

definition candidates :: "plant_api \<Rightarrow> suggestion list" where
  "candidates a =
     (case identify a of
        Inl e \<Rightarrow> []
      | Inr idn \<Rightarrow>
          (case result idn of
             None \<Rightarrow> []
           | Some r \<Rightarrow> (case classification r of None \<Rightarrow> [] | Some c \<Rightarrow> suggestions c)))"

text \<open>
  Whether none of the candidates the loop runs over after the first is equal to the first:
  the loop tests \<^verbatim>\<open>suggestion == suggestions[0]\<close>, and it runs over three candidates
  at most.
\<close>

definition top_unique :: "plant_api \<Rightarrow> bool" where
  "top_unique a = (case candidates a of [] \<Rightarrow> True | c # cs \<Rightarrow> c \<notin> set (take 2 cs))"

text \<open>
  Whether the knowledge-base lookup of the candidate at position \<open>i\<close> raises: the search
  does, or it finds an entity and the detail request does.
\<close>

definition kb_lookup_raises :: "plant_api \<Rightarrow> nat \<Rightarrow> bool" where
  "kb_lookup_raises a i =
     (case search a i of
        Inl e \<Rightarrow> True
      | Inr [] \<Rightarrow> False
      | Inr (tok # _) \<Rightarrow> isl (get_kb_detail a i))"

text \<open>
  How many times a list of calls asks the healing-properties question, and how many
  chat-completion requests it posts.
\<close>

definition asked :: "event list \<Rightarrow> nat" where
  "asked t = length (filter (\<lambda>ev. case fst ev of AskQuestion token \<Rightarrow> True | _ \<Rightarrow> False) t)"

definition posted :: "event list \<Rightarrow> nat" where
  "posted t = length (filter (\<lambda>ev. case fst ev of Post prompt \<Rightarrow> True | _ \<Rightarrow> False) t)"

text \<open>The paths a list of calls opens for writing.\<close>

definition written :: "event list \<Rightarrow> string list" where
  "written t = concat (map (\<lambda>ev. case fst ev of OpenWrite path \<Rightarrow> [path] | _ \<Rightarrow> []) t)"

text \<open>The texts a list of calls sends to the user, as a reply or as an edit.\<close>

definition sent :: "event list \<Rightarrow> string list" where
  "sent t =
     concat (map (\<lambda>ev. case fst ev of ReplyTo txt \<Rightarrow> [txt] | EditMessageText txt \<Rightarrow> [txt]
                          | _ \<Rightarrow> []) t)"

subsection \<open>Rendering numbers and lists\<close>

definition digit_char :: "nat \<Rightarrow> char" where
  "digit_char d = ''0123456789'' ! d"

text \<open>\<^verbatim>\<open>str(n)\<close> of a natural number and of an integer.\<close>

function str_nat :: "nat \<Rightarrow> string" where
  "str_nat n = (if n < 10 then [digit_char n] else str_nat (n div 10) @ [digit_char (n mod 10)])"
  by pat_completeness auto
termination
  by (relation "measure id") auto

declare str_nat.simps [simp del]

definition str_int :: "int \<Rightarrow> string" where
  "str_int i = (if i < 0 then ''-'' @ str_nat (nat (- i)) else str_nat (nat i))"

text \<open>
  \<^verbatim>\<open>format(x, '.1f')\<close> of a double: the decimal expansion correctly rounded to one
  decimal, ties to even, with the sign; \<^verbatim>\<open>inf\<close> and \<^verbatim>\<open>nan\<close> by name.
\<close>

definition format_f1 :: "pyfloat \<Rightarrow> string" where
  "format_f1 x =
     (case x of
        Finite s a \<Rightarrow>
          (let t = nat (round_half_even (\<bar>a\<bar> * 10))
           in (if s then ''-'' else []) @
              str_nat (t div 10) @ ''.'' @ [digit_char (t mod 10)])
      | Infinity s \<Rightarrow> (if s then ''-inf'' else ''inf'')
      | NaN \<Rightarrow> ''nan'')"

text \<open>
  \<^verbatim>\<open>format(x, '.1%')\<close>: the double is multiplied by 100, as a double, and the product
  is formatted with one decimal and followed by the percent sign.
\<close>

definition format_percent1 :: "pyfloat \<Rightarrow> string" where
  "format_percent1 x = format_f1 (times100 x) @ ''%''"





text \<open>\<^verbatim>\<open>sep.join(xs)\<close>.\<close>

fun join :: "string \<Rightarrow> string list \<Rightarrow> string" where
  "join sep [] = []"
| "join sep [x] = x"
| "join sep (x # y # ys) = x @ sep @ join sep (y # ys)"

text \<open>
  \<^verbatim>\<open>s[:n]\<close>: the first \<open>n\<close> code points. In UTF-8 a code point is a byte that is no
  continuation byte (\<open>0x80\<close> to \<open>0xBF\<close>), followed by its continuation bytes.
\<close>

definition is_continuation :: "char \<Rightarrow> bool" where
  "is_continuation c = (128 \<le> (of_char c :: nat) \<and> (of_char c :: nat) < 192)"

fun take_code_points :: "nat \<Rightarrow> string \<Rightarrow> string" where
  "take_code_points n [] = []"
| "take_code_points n (c # cs) =
     (if is_continuation c then c # take_code_points n cs
      else (case n of 0 \<Rightarrow> [] | Suc k \<Rightarrow> c # take_code_points k cs))"

text \<open>\<^verbatim>\<open>d.get(k)\<close> tested for truth: a missing key, \<^verbatim>\<open>None\<close> and an empty value fail.\<close>

fun truthy :: "'a list field \<Rightarrow> 'a list option" where
  "truthy (Value (x # xs)) = Some (x # xs)"
| "truthy _ = None"

subsection \<open>The texts of the replies\<close>

text \<open>
  The files differ in the bytes of their pictographs (main.py holds them re-encoded);
  the handlers take them as a parameter.
\<close>

record glyphs =
  herb :: string
  camera :: string
  magnifier :: string
  cross_mark :: string

definition main_glyphs :: glyphs where
  "main_glyphs =
     \<lparr>herb = [CHR 0xEF, CHR 0xA3, CHR 0xBF, CHR 0xC3, CHR 0xBC, CHR 0xC3, CHR 0xA5, CHR 0xC3, CHR 0xB8],
      camera = [CHR 0xEF, CHR 0xA3, CHR 0xBF, CHR 0xC3, CHR 0xBC, CHR 0xC3, CHR 0xAC, CHR 0xE2, CHR 0x88, CHR 0x8F],
      magnifier = [CHR 0xEF, CHR 0xA3, CHR 0xBF, CHR 0xC3, CHR 0xBC, CHR 0xC3, CHR 0xAE, CHR 0xC3, CHR 0xA7],
      cross_mark = [CHR 0xE2, CHR 0x80, CHR 0x9A, CHR 0xC3, CHR 0xB9, CHR 0xC3, CHR 0xA5]\<rparr>"

definition persona_glyphs :: glyphs where
  "persona_glyphs =
     \<lparr>herb = [CHR 0xF0, CHR 0x9F, CHR 0x8C, CHR 0xBF],
      camera = [CHR 0xF0, CHR 0x9F, CHR 0x93, CHR 0xB8],
      magnifier = [CHR 0xF0, CHR 0x9F, CHR 0x94, CHR 0x8D],
      cross_mark = [CHR 0xE2, CHR 0x9D, CHR 0x8C]\<rparr>"

definition welcome_text :: "glyphs \<Rightarrow> string" where
  "welcome_text g =
     herb g @ '' Welcome! This bot identifies plants from photos using Kindwise.\<newline>'' @
     ''Type /whois_plant to begin.''"

definition prompt_text :: "glyphs \<Rightarrow> string" where
  "prompt_text g = camera g @ '' Please send me a photo of the plant you want to identify.''"

definition processing_text :: "glyphs \<Rightarrow> string" where
  "processing_text g = magnifier g @ '' Processing your plant photo... Please wait...''"

definition rejection_text :: "glyphs \<Rightarrow> string" where
  "rejection_text g =
     ''Please send a photo '' @ camera g @ '' of the plant you want to identify.''"

definition results_header :: "glyphs \<Rightarrow> string" where
  "results_header g = herb g @ '' *Plant Identification Results*\<newline>\<newline>''"

definition channel_text :: string where
  "channel_text =
     [CHR 0xF0, CHR 0x9F, CHR 0x8C, CHR 0x9F] @ '' Let me channel the spirit of this plant...''"

definition plant_message_header :: string where
  "plant_message_header =
     [CHR 0xE2, CHR 0x9C, CHR 0xA8] @ '' *A message from your plant:*\<newline>\<newline>''"

subsection \<open>The formatted reply (main.py 150-164, papaboisfinal.py 244-247)\<close>

text \<open>Lines 152-164 of main.py: what one turn of the loop appends to the response.\<close>

definition format_plant :: "nat \<Rightarrow> plant_info \<Rightarrow> string" where
  "format_plant idx plant =
     str_nat idx @ ''. *'' @ info_name plant @ ''*\<newline>'' @
     ''   Confidence: '' @ format_percent1 (confidence plant) @ ''\<newline>'' @
     (case truthy (common_names (info_details plant)) of
        Some names \<Rightarrow> ''   Common names: '' @ join '', '' names @ ''\<newline>''
      | None \<Rightarrow> []) @
     (case truthy (description (info_details plant)) of
        Some d \<Rightarrow> ''   Description: '' @ take_code_points 200 d @ ''...\<newline>''
      | None \<Rightarrow> []) @
     (case healing_properties plant of
        Some h \<Rightarrow>
          if idx = 1
          then ''\<newline>   Healing Properties:\<newline>   '' @ take_code_points 200 h @ ''...\<newline>''
          else []
      | None \<Rightarrow> []) @
     ''\<newline>''"

text \<open>Lines 246-247 of papaboisfinal.py (216-217 of plantpersona.py).\<close>

definition format_plant_short :: "nat \<Rightarrow> plant_info \<Rightarrow> string" where
  "format_plant_short idx plant =
     str_nat idx @ ''. *'' @ info_name plant @ ''*\<newline>'' @
     ''   Confidence: '' @ format_percent1 (confidence plant) @ ''\<newline>\<newline>''"

text \<open>
  \<^verbatim>\<open>for idx, plant in enumerate(results, 1): response += ...\<close>, the response being
  the accumulator.
\<close>

fun format_loop :: "(nat \<Rightarrow> plant_info \<Rightarrow> string) \<Rightarrow> nat \<Rightarrow> plant_info list \<Rightarrow> string \<Rightarrow> string" where
  "format_loop f idx [] response = response"
| "format_loop f idx (plant # rest) response =
     format_loop f (Suc idx) rest (response @ f idx plant)"

definition format_response :: "glyphs \<Rightarrow> plant_info list \<Rightarrow> string" where
  "format_response g rs = format_loop format_plant 1 rs (results_header g)"

definition format_response_short :: "glyphs \<Rightarrow> plant_info list \<Rightarrow> string" where
  "format_response_short g rs = format_loop format_plant_short 1 rs (results_header g)"

subsection \<open>get\_plant\_persona (papaboisfinal.py 91-132)\<close>

text \<open>
  The answer of \<^verbatim>\<open>requests.post\<close>: its status, and what
  \<^verbatim>\<open>response.json()['choices'][0]['message']['content']\<close> gives or raises.
\<close>

record response =
  status_code :: int
  content :: "exn + string"

definition meditation_text :: string where
  "meditation_text =
     ''I seem to be in deep meditation at the moment... '' @
     [CHR 0xF0, CHR 0x9F, CHR 0x8C, CHR 0xBF]"

definition communing_text :: string where
  "communing_text =
     ''I am currently communing with nature... Try again later '' @
     [CHR 0xF0, CHR 0x9F, CHR 0x8C, CHR 0xB1]"

text \<open>
  Lines 94-103: the prompt. \<^verbatim>\<open>', '.join(None)\<close> raises TypeError, which is what
  happens when the details hold \<^verbatim>\<open>None\<close> for the common names; a description of
  \<^verbatim>\<open>None\<close> is printed as such.
\<close>

definition get_or :: "string field \<Rightarrow> string \<Rightarrow> string" where
  "get_or f dflt = (case f of Absent \<Rightarrow> dflt | Null \<Rightarrow> ''None'' | Value v \<Rightarrow> v)"

definition persona_prompt :: "plant_info \<Rightarrow> exn + string" where
  "persona_prompt plant =
     (case common_names (info_details plant) of
        Null \<Rightarrow> Inl ''can only join an iterable''
      | names \<Rightarrow>
          Inr (''You are '' @ info_name plant @ '', a mystical plant entity. \<newline>'' @
               ''Based on this information about yourself:\<newline>'' @
               ''- Scientific name: '' @ info_name plant @ ''\<newline>'' @
               ''- Common names: '' @
               join '', '' (case names of Value ns \<Rightarrow> ns | _ \<Rightarrow> []) @ ''\<newline>'' @
               ''- Description: '' @
               get_or (description (info_details plant)) ''Unknown'' @ ''\<newline>'' @
               ''- Healing properties: '' @
               (case healing_properties plant of None \<Rightarrow> ''Unknown'' | Some h \<Rightarrow> h) @
               ''\<newline>\<newline>'' @
               ''Introduce yourself and tell us about who you are, where you'' @ [CHR 0x27] @
               ''re from, your benefits, and what makes you happy. \<newline>'' @
               ''Speak in a mystical, wise, and enchanting voice, as if you'' @ [CHR 0x27] @
               ''re an ancient being sharing your wisdom.\<newline>'' @
               ''Keep the response concise but magical.''))"

text \<open>Lines 94-128, the body of the try; an exception that leaves it is \<open>Inl\<close>.\<close>

definition persona_try :: "(string \<Rightarrow> exn + response) \<Rightarrow> plant_info \<Rightarrow> (exn + string) \<times> event list" where
  "persona_try post plant =
     (case persona_prompt plant of
        Inl e \<Rightarrow> (Inl e, [])
      | Inr prompt \<Rightarrow>
          (case post prompt of
             Inl e \<Rightarrow> (Inl e, [(Post prompt, Some e)])
           | Inr r \<Rightarrow>
               if status_code r = 200
               then (content r, [(Post prompt, None)])
               else (Inr meditation_text, [(Post prompt, None)])))"

text \<open>The function: the try, and lines 130-132, \<^verbatim>\<open>except Exception\<close>.\<close>

definition get_plant_persona :: "(string \<Rightarrow> exn + response) \<Rightarrow> plant_info \<Rightarrow> string \<times> event list" where
  "get_plant_persona post plant =
     (case persona_try post plant of
        (Inl e, t) \<Rightarrow> (communing_text, t)
      | (Inr plant_message, t) \<Rightarrow> (plant_message, t))"

subsection \<open>plantpersona.py: the OpenRouter helper and what is built on it\<close>

definition quiet_text :: string where
  "quiet_text =
     ''The spirits are quiet at the moment... '' @ [CHR 0xF0, CHR 0x9F, CHR 0x8C, CHR 0xBF]"

definition veiled_text :: string where
  "veiled_text =
     ''Nature'' @ [CHR 0x27] @ ''s wisdom is temporarily veiled... '' @
     [CHR 0xF0, CHR 0x9F, CHR 0x8D, CHR 0x83]"

definition eludes_text :: string where
  "eludes_text =
     ''The ancient wisdom eludes me at this moment... '' @
     [CHR 0xF0, CHR 0x9F, CHR 0x8C, CHR 0xBF]"

text \<open>Lines 69-80, the body of the try, and the function with its handler (81-83).\<close>

definition openrouter_try :: "(string \<Rightarrow> exn + response) \<Rightarrow> string \<Rightarrow> (exn + string) \<times> event list" where
  "openrouter_try post prompt =
     (case post prompt of
        Inl e \<Rightarrow> (Inl e, [(Post prompt, Some e)])
      | Inr r \<Rightarrow>
          if status_code r = 200
          then (content r, [(Post prompt, None)])
          else (Inr quiet_text, [(Post prompt, None)]))"

definition get_openrouter_response :: "(string \<Rightarrow> exn + response) \<Rightarrow> string \<Rightarrow> string \<times> event list" where
  "get_openrouter_response post prompt =
     (case openrouter_try post prompt of
        (Inl e, t) \<Rightarrow> (veiled_text, t)
      | (Inr answer, t) \<Rightarrow> (answer, t))"

text \<open>
  Lines 85-107. The keys are read from \<^verbatim>\<open>plant_info\<close> itself, into which
  \<^verbatim>\<open>identify_plant_from_path\<close> has merged the details of the suggestion; they are
  the \<open>info_details\<close> of the model.
\<close>

definition persona_prompt_pp :: "plant_info \<Rightarrow> exn + string" where
  "persona_prompt_pp plant =
     (case common_names (info_details plant) of
        Null \<Rightarrow> Inl ''can only join an iterable''
      | names \<Rightarrow>
          Inr (''You are '' @ info_name plant @
               '', speaking as a mystical plant entity.\<newline>'' @
               ''        \<newline>'' @
               ''Scientific Details:\<newline>'' @
               ''- Name: '' @ info_name plant @ ''\<newline>'' @
               ''- Common Names: '' @
               join '', '' (case names of Value ns \<Rightarrow> ns | _ \<Rightarrow> []) @ ''\<newline>'' @
               ''- Description: '' @
               get_or (description (info_details plant))
                 ''A mysterious plant of ancient wisdom'' @ ''\<newline>'' @
               ''- Healing Properties: '' @
               (case healing_properties plant of
                  None \<Rightarrow> ''Powers yet to be fully understood'' | Some h \<Rightarrow> h) @
               ''\<newline>\<newline>'' @
               ''Share your story in a mystical, wise voice, covering:\<newline>'' @
               ''1. Your origins and native lands\<newline>'' @
               ''2. Your healing powers and gifts to humanity\<newline>'' @
               ''3. What brings you joy in the natural world\<newline>'' @
               ''4. Ancient wisdom or warnings you wish to share\<newline>\<newline>'' @
               ''Remember, speak as the plant itself, sharing deep wisdom while being '' @
               ''engaging and unique.''))"

definition get_plant_persona_pp :: "(string \<Rightarrow> exn + response) \<Rightarrow> plant_info \<Rightarrow> string \<times> event list" where
  "get_plant_persona_pp post plant =
     (case persona_prompt_pp plant of
        Inl e \<Rightarrow> (eludes_text, [])
      | Inr prompt \<Rightarrow> get_openrouter_response post prompt)"

text \<open>Lines 109-116; the f-string of a string cannot raise, and the helper never does.\<close>

definition get_healing_properties :: "(string \<Rightarrow> exn + response) \<Rightarrow> string \<Rightarrow> string \<times> event list" where
  "get_healing_properties post plant_name =
     get_openrouter_response post
       (''What are the traditional medicinal and healing properties of '' @ plant_name @
        ''? Include both benefits and any potential risks or warnings.'')"

text \<open>
  When a chat-completion request fails: the post raises, the status is not 200, or the
  body does not hold the content where the code reads it.
\<close>

definition request_fails :: "(string \<Rightarrow> exn + response) \<Rightarrow> string \<Rightarrow> bool" where
  "request_fails po prompt =
     (case po prompt of Inl e \<Rightarrow> True | Inr r \<Rightarrow> status_code r \<noteq> 200 \<or> isl (content r))"

text \<open>
  Lines 147-160: the body of the loop of plantpersona.py. There is no knowledge-base
  lookup; the details come with the suggestion, and \<^verbatim>\<open>plant_info.update(None)\<close>
  raises TypeError. Nothing inside the loop catches it.
\<close>

definition candidate_info_pp ::
  "(string \<Rightarrow> exn + response) \<Rightarrow> suggestion \<Rightarrow> suggestion \<Rightarrow> (exn + plant_info) \<times> event list" where
  "candidate_info_pp post first s =
     (case suggestion_details s of
        Null \<Rightarrow> (Inl ([CHR 0x27] @ ''NoneType'' @ [CHR 0x27] @ '' object is not iterable''), [])
      | ds \<Rightarrow>
          (let info0 = \<lparr>info_name = name s, confidence = probability s,
                         info_details = (case ds of Value d \<Rightarrow> d | _ \<Rightarrow> no_details),
                         healing_properties = None\<rparr>
           in if s = first
              then (Inr (info0\<lparr>healing_properties :=
                               Some (fst (get_healing_properties post (name s)))\<rparr>),
                    snd (get_healing_properties post (name s)))
              else (Inr info0, [])))"

text \<open>Lines 145-160: the loop; an exception in one iteration ends it.\<close>

fun collect_pp ::
  "(string \<Rightarrow> exn + response) \<Rightarrow> suggestion \<Rightarrow> suggestion list \<Rightarrow>
   (exn + plant_info list) \<times> event list" where
  "collect_pp post first [] = (Inr [], [])"
| "collect_pp post first (s # ss) =
     (case candidate_info_pp post first s of
        (Inl e, t) \<Rightarrow> (Inl e, t)
      | (Inr info, t) \<Rightarrow>
          (case collect_pp post first ss of
             (Inl e, ts) \<Rightarrow> (Inl e, t @ ts)
           | (Inr infos, ts) \<Rightarrow> (Inr (info # infos), t @ ts)))"

text \<open>Lines 121-162, the body of the outer try.\<close>

definition identify_try_pp ::
  "plant_api \<Rightarrow> (string \<Rightarrow> exn + response) \<Rightarrow> (string \<rightharpoonup> string) \<Rightarrow> string
     \<Rightarrow> (exn + ident_result) \<times> event list" where
  "identify_try_pp a post files image_path =
     (if files image_path = None
      then (Inl (''Image file not found: '' @ image_path), [])
      else
        case identify a of
          Inl e \<Rightarrow> (Inl e, [(Identify image_path, Some e)])
        | Inr idn \<Rightarrow>
            (case result idn of
               None \<Rightarrow>
                 (Inr (Error ''No classification results available''),
                  [(Identify image_path, None)])
             | Some r \<Rightarrow>
                 (case classification r of
                    None \<Rightarrow>
                      (Inr (Error ''No classification results available''),
                       [(Identify image_path, None)])
                  | Some c \<Rightarrow>
                      (case suggestions c of
                         [] \<Rightarrow>
                           (Inr (Error ''No plant matches found''),
                            [(Identify image_path, None)])
                       | first # _ \<Rightarrow>
                           (case collect_pp post first (take 3 (suggestions c)) of
                              (Inl e, t) \<Rightarrow> (Inl e, (Identify image_path, None) # t)
                            | (Inr rs, t) \<Rightarrow>
                                (Inr (Success rs), (Identify image_path, None) # t))))))"

text \<open>Lines 118-166.\<close>

definition identify_plant_from_path_pp ::
  "plant_api \<Rightarrow> (string \<Rightarrow> exn + response) \<Rightarrow> (string \<rightharpoonup> string) \<Rightarrow> string
     \<Rightarrow> ident_result \<times> event list" where
  "identify_plant_from_path_pp a post files image_path =
     (case identify_try_pp a post files image_path of
        (Inl e, t) \<Rightarrow> (Error e, t)
      | (Inr d, t) \<Rightarrow> (d, t))"

text \<open>
  Whether one of the candidates the loop of plantpersona.py runs over comes with
  \<^verbatim>\<open>details = None\<close>.
\<close>

definition details_missing :: "plant_api \<Rightarrow> bool" where
  "details_missing a = list_ex (\<lambda>s. suggestion_details s = Null) (take 3 (candidates a))"

subsection \<open>identify\_plant (plantid.py 17-101), the command-line program\<close>

text \<open>
  The command-line program asks for the identification asynchronously and then fetches
  it: \<open>get_identification\<close> answers with the \<^verbatim>\<open>completed\<close> flag and the
  identification. It prints what the bot would send; the printed lines are the second
  component of the result, the first being the exception that leaves the function.
\<close>

record plant_api_cli = plant_api +
  get_identification :: "exn + bool \<times> identification"

definition rule_line :: string where
  "rule_line = replicate 50 CHR ''=''"

text \<open>
  Lines 78-81: \<^verbatim>\<open>'common_names' in details\<close> holds for a key that is present, also
  with \<^verbatim>\<open>None\<close>, on which the join and the slice raise TypeError.
\<close>

definition print_details :: "details \<Rightarrow> exn option \<times> string list" where
  "print_details d =
     (case common_names d of
        Null \<Rightarrow> (Some ''can only join an iterable'', [])
      | names \<Rightarrow>
          (let out = (case names of
                        Value ns \<Rightarrow> [''   Common names: '' @ join '', '' ns]
                      | _ \<Rightarrow> [])
           in case description d of
                Null \<Rightarrow> (Some ([CHR 0x27] @ ''NoneType'' @ [CHR 0x27] @ '' object is not subscriptable''), out)
              | Absent \<Rightarrow> (None, out)
              | Value v \<Rightarrow> (None, out @ [''   Description: '' @ take_code_points 200 v @ ''...''])))"

text \<open>Lines 70-81.\<close>

definition print_lookup ::
  "plant_api_cli \<Rightarrow> nat \<Rightarrow> suggestion \<Rightarrow> exn option \<times> string list \<times> event list" where
  "print_lookup a i s =
     (case search a i of
        Inl e \<Rightarrow> (Some e, [], [(Search (name s), Some e)])
      | Inr [] \<Rightarrow> (None, [], [(Search (name s), None)])
      | Inr (tok # _) \<Rightarrow>
          (case get_kb_detail a i of
             Inl e \<Rightarrow> (Some e, [], [(Search (name s), None), (KbDetail tok, Some e)])
           | Inr d \<Rightarrow>
               (fst (print_details d), snd (print_details d),
                [(Search (name s), None), (KbDetail tok, None)])))"

text \<open>Lines 85-92.\<close>

definition print_healing ::
  "plant_api_cli \<Rightarrow> string \<Rightarrow> nat \<Rightarrow> string list \<times> event list" where
  "print_healing a token i =
     (case ask_question a i of
        Inr (Some (m # ms)) \<Rightarrow>
          ([''\<newline>   Healing Properties:'', ''   '' @ take_code_points 200 (last (m # ms)) @ ''...''],
           [(AskQuestion token, None)])
      | Inr _ \<Rightarrow> ([''\<newline>   Healing Properties:''], [(AskQuestion token, None)])
      | Inl e \<Rightarrow> ([''\<newline>   Healing Properties:''], [(AskQuestion token, Some e)]))"

text \<open>
  Lines 64-95: the loop over \<^verbatim>\<open>enumerate(suggestions[:3], 1)\<close>. The question is
  asked when \<^verbatim>\<open>idx == 1\<close>. The calls of the iteration with number \<open>idx\<close> are
  answered at position \<open>idx - 1\<close>.
\<close>

fun print_candidates ::
  "plant_api_cli \<Rightarrow> string \<Rightarrow> nat \<Rightarrow> suggestion list \<Rightarrow> string list \<times> event list" where
  "print_candidates a token idx [] = ([], [])"
| "print_candidates a token idx (s # ss) =
     (let head = [''\<newline>'' @ str_nat idx @ ''. '' @ name s,
                  ''   Confidence: '' @ format_percent1 (probability s)];
          (e1, out1, t1) = print_lookup a (idx - 1) s;
          (out2, t2) = (if e1 = None \<and> idx = 1 then print_healing a token (idx - 1)
                        else ([], []));
          (outs, ts) = print_candidates a token (Suc idx) ss
      in (head @ out1 @ out2 @ outs, t1 @ t2 @ ts))"

text \<open>
  The function. Its \<^verbatim>\<open>except Exception\<close> (lines 99-101) logs the exception and
  raises it again, so what leaves the try leaves the function.
\<close>

definition identify_plant ::
  "plant_api_cli \<Rightarrow> (string \<rightharpoonup> string) \<Rightarrow> string \<Rightarrow> exn option \<times> string list \<times> event list" where
  "identify_plant a files image_path =
     (if files image_path = None
      then (Some (''Image file not found: '' @ image_path), [], [])
      else
        case identify a of
          Inl e \<Rightarrow> (Some e, [], [(Identify image_path, Some e)])
        | Inr idn \<Rightarrow>
            (case get_identification a of
               Inl e \<Rightarrow>
                 (Some e, [],
                  [(Identify image_path, None), (GetIdentification (access_token idn), Some e)])
             | Inr (completed, done) \<Rightarrow>
                 (let t0 = [(Identify image_path, None),
                            (GetIdentification (access_token idn), None)]
                  in if \<not> completed then (None, [], t0)
                     else
                       case result done of
                         None \<Rightarrow> (None, [], t0)
                       | Some r \<Rightarrow>
                           (case classification r of
                              None \<Rightarrow> (None, [], t0)
                            | Some c \<Rightarrow>
                                (case suggestions c of
                                   [] \<Rightarrow> (None, [], t0)
                                 | first # _ \<Rightarrow>
                                     (let (out, t) = print_candidates a (access_token done) 1
                                                       (take 3 (suggestions c))
                                      in (None,
                                          [''\<newline>'' @ [CHR 0xF0, CHR 0x9F, CHR 0x8C, CHR 0xBF] @
                                           '' Plant Identification Results:'', rule_line] @
                                          out @ [''\<newline>'' @ rule_line],
                                          t0 @ t)))))))"

subsection \<open>The world of the handlers\<close>

text \<open>
  A message as the handlers and the filters of their decorators read it: the ids of the
  sender and of the chat, the content type, the command of a text that starts with a
  slash (\<open>None\<close> otherwise), and the file ids of \<^verbatim>\<open>message.photo\<close>.
\<close>

record message =
  from_user_id :: int
  chat_id :: int
  content_type :: string
  command :: "string option"
  photo :: "string list"

text \<open>
  \<^verbatim>\<open>UserStates\<close> has one state. The storage of the bot keeps it by chat and user;
  a user with no entry is idle.
\<close>

datatype user_state = waiting_for_photo

text \<open>
  The world: the states, the regular files on disk with their contents, the paths that are
  directories, and the calls issued so far.
\<close>

record world =
  states :: "int \<times> int \<Rightarrow> user_state option"
  files :: "string \<rightharpoonup> string"
  dirs :: "string set"
  trace :: "event list"

text \<open>
  How \<^verbatim>\<open>open(path, 'wb')\<close> followed by the write ends: the file holds the data, or
  the open raised and nothing changed, or the write raised and left a file with part of
  the data.
\<close>

datatype write_outcome = Written | OpenFailed exn | WriteFailed exn string

text \<open>
  What the outside answers to one handler invocation. The Telegram calls are functions of
  what is sent: the texts of two different calls of one invocation differ, so this lets
  every call of an invocation fail or succeed on its own. \<open>remove\<close> says whether
  \<^verbatim>\<open>os.remove\<close> of a regular file raises (the file cannot be removed).
\<close>

record env =
  api :: plant_api
  post :: "string \<Rightarrow> exn + response"
  reply_to :: "string \<Rightarrow> exn option"
  edit_message_text :: "string \<Rightarrow> exn option"
  get_file :: "string \<Rightarrow> exn + string"
  download_file :: "string \<Rightarrow> exn + string"
  open_write :: "string \<Rightarrow> write_outcome"
  remove :: "string \<Rightarrow> exn option"

definition emit :: "event list \<Rightarrow> world \<Rightarrow> world" where
  "emit evs w = w\<lparr>trace := trace w @ evs\<rparr>"

definition bot_reply_to :: "env \<Rightarrow> string \<Rightarrow> world \<Rightarrow> exn option \<times> world" where
  "bot_reply_to ev txt w = (reply_to ev txt, emit [(ReplyTo txt, reply_to ev txt)] w)"

definition bot_edit_message_text :: "env \<Rightarrow> string \<Rightarrow> world \<Rightarrow> exn option \<times> world" where
  "bot_edit_message_text ev txt w =
     (edit_message_text ev txt, emit [(EditMessageText txt, edit_message_text ev txt)] w)"

definition user_key :: "message \<Rightarrow> int \<times> int" where
  "user_key m = (chat_id m, from_user_id m)"

subsection \<open>The command handlers and handle\_invalid\_input\<close>

text \<open>main.py 104-112.\<close>

definition cmd_start :: "glyphs \<Rightarrow> env \<Rightarrow> message \<Rightarrow> world \<Rightarrow> exn option \<times> world" where
  "cmd_start g ev m w = bot_reply_to ev (welcome_text g) w"

text \<open>main.py 114-119: the state is set before the reply is sent.\<close>

definition cmd_whois_plant :: "glyphs \<Rightarrow> env \<Rightarrow> message \<Rightarrow> world \<Rightarrow> exn option \<times> world" where
  "cmd_whois_plant g ev m w =
     bot_reply_to ev (prompt_text g)
       (w\<lparr>states := (states w)(user_key m \<mapsto> waiting_for_photo)\<rparr>)"

text \<open>main.py 184-187.\<close>

definition handle_invalid_input :: "glyphs \<Rightarrow> env \<Rightarrow> message \<Rightarrow> world \<Rightarrow> exn option \<times> world" where
  "handle_invalid_input g ev m w = bot_reply_to ev (rejection_text g) w"

subsection \<open>handle\_photo (main.py 121-182)\<close>

text \<open>Line 134.\<close>

definition photo_path :: "message \<Rightarrow> string" where
  "photo_path m = ''temp_plant_'' @ str_int (from_user_id m) @ ''.jpg''"

text \<open>
  Lines 127-131, the part of the try before \<^verbatim>\<open>photo_path\<close> is assigned: the
  processing message, then the download of the last photo size.
\<close>

definition download_photo :: "glyphs \<Rightarrow> env \<Rightarrow> message \<Rightarrow> world \<Rightarrow> (exn + string) \<times> world" where
  "download_photo g ev m w =
     (case bot_reply_to ev (processing_text g) w of
        (Some e, w1) \<Rightarrow> (Inl e, w1)
      | (None, w1) \<Rightarrow>
          (case photo m of
             [] \<Rightarrow> (Inl ''list index out of range'', w1)
           | p # ps \<Rightarrow>
               (case get_file ev (last (p # ps)) of
                  Inl e \<Rightarrow> (Inl e, emit [(GetFile (last (p # ps)), Some e)] w1)
                | Inr file_path \<Rightarrow>
                    (case download_file ev file_path of
                       Inl e \<Rightarrow>
                         (Inl e,
                          emit [(GetFile (last (p # ps)), None),
                                (DownloadFile file_path, Some e)] w1)
                     | Inr downloaded_file \<Rightarrow>
                         (Inr downloaded_file,
                          emit [(GetFile (last (p # ps)), None),
                                (DownloadFile file_path, None)] w1)))))"

text \<open>Lines 135-136. Opening a directory for writing raises IsADirectoryError.\<close>

definition is_a_directory :: "string \<Rightarrow> exn" where
  "is_a_directory path = ''[Errno 21] Is a directory: '' @ [CHR 0x27] @ path @ [CHR 0x27]"

definition save_photo :: "env \<Rightarrow> string \<Rightarrow> string \<Rightarrow> world \<Rightarrow> exn option \<times> world" where
  "save_photo ev path downloaded_file w =
     (if path \<in> dirs w
      then (Some (is_a_directory path),
            emit [(OpenWrite path, Some (is_a_directory path))] w)
      else
        case open_write ev path of
          Written \<Rightarrow>
            (None, emit [(OpenWrite path, None)]
                     (w\<lparr>files := (files w)(path \<mapsto> downloaded_file)\<rparr>))
        | OpenFailed e \<Rightarrow> (Some e, emit [(OpenWrite path, Some e)] w)
        | WriteFailed e part \<Rightarrow>
            (Some e, emit [(OpenWrite path, Some e)] (w\<lparr>files := (files w)(path \<mapsto> part)\<rparr>)))"

text \<open>
  Lines 134-172, the rest of the try: save, identify, and edit the processing message
  into the error or into the formatted results.
\<close>

definition process_photo :: "glyphs \<Rightarrow> env \<Rightarrow> message \<Rightarrow> string \<Rightarrow> world \<Rightarrow> exn option \<times> world" where
  "process_photo g ev m downloaded_file w =
     (case save_photo ev (photo_path m) downloaded_file w of
        (Some e, w1) \<Rightarrow> (Some e, w1)
      | (None, w1) \<Rightarrow>
          (let (identification_result, t) =
                 identify_plant_from_path (api ev) (files w1) (photo_path m);
               w2 = emit t w1
           in case identification_result of
                Error msg \<Rightarrow> bot_edit_message_text ev (cross_mark g @ '' '' @ msg) w2
              | Success rs \<Rightarrow> bot_edit_message_text ev (format_response g rs) w2))"

text \<open>
  Lines 174-176: \<^verbatim>\<open>except Exception as e\<close>. The reply it sends can raise in turn,
  and that exception leaves the handler, after the finally.
\<close>

definition photo_except :: "glyphs \<Rightarrow> env \<Rightarrow> exn option \<Rightarrow> world \<Rightarrow> exn option \<times> world" where
  "photo_except g ev r w =
     (case r of
        None \<Rightarrow> (None, w)
      | Some e \<Rightarrow> bot_reply_to ev (cross_mark g @ '' An error occurred: '' @ e) w)"

text \<open>
  \<^verbatim>\<open>os.remove(path)\<close>, called on a path that exists: it raises on a directory, and on
  a regular file when the outside says so; otherwise the file is gone.
\<close>

definition os_remove :: "env \<Rightarrow> string \<Rightarrow> world \<Rightarrow> exn option \<times> world" where
  "os_remove ev path w =
     (if path \<in> dirs w
      then (Some (is_a_directory path), emit [(Remove path, Some (is_a_directory path))] w)
      else
        case remove ev path of
          Some e \<Rightarrow> (Some e, emit [(Remove path, Some e)] w)
        | None \<Rightarrow> (None, emit [(Remove path, None)] (w\<lparr>files := (files w)(path := None)\<rparr>)))"

text \<open>
  Lines 178-182: the finally. \<open>assigned\<close> is \<^verbatim>\<open>'photo_path' in locals()\<close>, and
  \<^verbatim>\<open>os.path.exists\<close> holds for a regular file and for a directory. \<open>r\<close> is how the
  try and the except ended. The removal comes first: when it raises, its exception leaves
  the handler in place of \<open>r\<close>, and \<^verbatim>\<open>bot.delete_state\<close> is not reached.
\<close>

definition photo_finally ::
  "env \<Rightarrow> message \<Rightarrow> bool \<Rightarrow> exn option \<Rightarrow> world \<Rightarrow> exn option \<times> world" where
  "photo_finally ev m assigned r w =
     (if assigned \<and> (files w (photo_path m) \<noteq> None \<or> photo_path m \<in> dirs w)
      then (case os_remove ev (photo_path m) w of
              (Some e, w1) \<Rightarrow> (Some e, w1)
            | (None, w1) \<Rightarrow> (r, w1\<lparr>states := (states w1)(user_key m := None)\<rparr>))
      else (r, w\<lparr>states := (states w)(user_key m := None)\<rparr>))"

definition handle_photo :: "glyphs \<Rightarrow> env \<Rightarrow> message \<Rightarrow> world \<Rightarrow> exn option \<times> world" where
  "handle_photo g ev m w =
     (case download_photo g ev m w of
        (Inl e, w1) \<Rightarrow>
          (let (r, w2) = photo_except g ev (Some e) w1
           in photo_finally ev m False r w2)
      | (Inr downloaded_file, w1) \<Rightarrow>
          (let (r1, w2) = process_photo g ev m downloaded_file w1;
               (r, w3) = photo_except g ev r1 w2
           in photo_finally ev m True r w3))"

text \<open>
  Whether \<^verbatim>\<open>os.remove\<close> of a path raises; whether the temporary path exists when the
  finally is reached after a download that returned (it was there before, or the open
  created it); and whether the finally of a photo request is left by the exception of
  the removal.
\<close>

definition remove_raises :: "env \<Rightarrow> world \<Rightarrow> string \<Rightarrow> bool" where
  "remove_raises ev w path = (path \<in> dirs w \<or> remove ev path \<noteq> None)"

definition temp_exists_at_cleanup :: "env \<Rightarrow> message \<Rightarrow> world \<Rightarrow> bool" where
  "temp_exists_at_cleanup ev m w =
     (photo_path m \<in> dirs w \<or> files w (photo_path m) \<noteq> None \<or>
      (case open_write ev (photo_path m) of OpenFailed e \<Rightarrow> False | _ \<Rightarrow> True))"

definition cleanup_raises :: "glyphs \<Rightarrow> env \<Rightarrow> message \<Rightarrow> world \<Rightarrow> bool" where
  "cleanup_raises g ev m w =
     (\<not> isl (fst (download_photo g ev m w)) \<and> temp_exists_at_cleanup ev m w \<and>
      remove_raises ev w (photo_path m))"

subsection \<open>handle\_photo with the persona (papaboisfinal.py 215-278, plantpersona.py 185-248)\<close>

text \<open>
  The two files hold the same handler; each calls the \<^verbatim>\<open>identify_plant_from_path\<close>
  and the \<^verbatim>\<open>get_plant_persona\<close> of its own file, here \<open>ident\<close> and \<open>persona\<close>.
  Lines 228-268 of papaboisfinal.py: \<^verbatim>\<open>results[0]\<close> of an empty list raises.
\<close>

definition process_photo_persona ::
  "(env \<Rightarrow> (string \<rightharpoonup> string) \<Rightarrow> string \<Rightarrow> ident_result \<times> event list) \<Rightarrow>
   (env \<Rightarrow> plant_info \<Rightarrow> string \<times> event list) \<Rightarrow>
   glyphs \<Rightarrow> env \<Rightarrow> message \<Rightarrow> string \<Rightarrow> world \<Rightarrow> exn option \<times> world" where
  "process_photo_persona ident persona g ev m downloaded_file w =
     (case save_photo ev (photo_path m) downloaded_file w of
        (Some e, w1) \<Rightarrow> (Some e, w1)
      | (None, w1) \<Rightarrow>
          (let (identification_result, t) = ident ev (files w1) (photo_path m);
               w2 = emit t w1
           in case identification_result of
                Error msg \<Rightarrow> bot_edit_message_text ev (cross_mark g @ '' '' @ msg) w2
              | Success rs \<Rightarrow>
                  (case bot_edit_message_text ev (format_response_short g rs) w2 of
                     (Some e, w3) \<Rightarrow> (Some e, w3)
                   | (None, w3) \<Rightarrow>
                       (case rs of
                          [] \<Rightarrow> (Some ''list index out of range'', w3)
                        | top_plant # _ \<Rightarrow>
                            (case bot_reply_to ev channel_text w3 of
                               (Some e, w4) \<Rightarrow> (Some e, w4)
                             | (None, w4) \<Rightarrow>
                                 (let (plant_message, t2) = persona ev top_plant
                                  in bot_reply_to ev (plant_message_header @ plant_message)
                                       (emit t2 w4)))))))"

definition handle_photo_persona ::
  "(env \<Rightarrow> (string \<rightharpoonup> string) \<Rightarrow> string \<Rightarrow> ident_result \<times> event list) \<Rightarrow>
   (env \<Rightarrow> plant_info \<Rightarrow> string \<times> event list) \<Rightarrow>
   glyphs \<Rightarrow> env \<Rightarrow> message \<Rightarrow> world \<Rightarrow> exn option \<times> world" where
  "handle_photo_persona ident persona g ev m w =
     (case download_photo g ev m w of
        (Inl e, w1) \<Rightarrow>
          (let (r, w2) = photo_except g ev (Some e) w1
           in photo_finally ev m False r w2)
      | (Inr downloaded_file, w1) \<Rightarrow>
          (let (r1, w2) = process_photo_persona ident persona g ev m downloaded_file w1;
               (r, w3) = photo_except g ev r1 w2
           in photo_finally ev m True r w3))"

text \<open>The handler of papaboisfinal.py and the handler of plantpersona.py.\<close>

definition handle_photo_final :: "env \<Rightarrow> message \<Rightarrow> world \<Rightarrow> exn option \<times> world" where
  "handle_photo_final =
     handle_photo_persona (\<lambda>ev. identify_plant_from_path (api ev))
       (\<lambda>ev. get_plant_persona (post ev)) persona_glyphs"

definition handle_photo_pp :: "env \<Rightarrow> message \<Rightarrow> world \<Rightarrow> exn option \<times> world" where
  "handle_photo_pp =
     handle_photo_persona (\<lambda>ev. identify_plant_from_path_pp (api ev) (post ev))
       (\<lambda>ev. get_plant_persona_pp (post ev)) persona_glyphs"

subsection \<open>The dispatch of a message to the handlers\<close>

text \<open>
  The decorators register the handlers in the order of the file, and the bot runs the
  first one whose filters all hold: \<^verbatim>\<open>commands=[c]\<close> holds for a text message whose
  command is \<open>c\<close>; \<^verbatim>\<open>content_types\<close> holds when the content type of the message is
  listed; \<^verbatim>\<open>state\<close> holds when the stored state of the chat and user is the one
  given. A message no handler takes is dropped. \<open>on_photo\<close> is the photo handler of
  the file.
\<close>

definition dispatch ::
  "(env \<Rightarrow> message \<Rightarrow> world \<Rightarrow> exn option \<times> world) \<Rightarrow>
   glyphs \<Rightarrow> env \<Rightarrow> message \<Rightarrow> world \<Rightarrow> exn option \<times> world" where
  "dispatch on_photo g ev m w =
     (if content_type m = ''text'' \<and> command m = Some ''start''
      then cmd_start g ev m w
      else if content_type m = ''text'' \<and> command m = Some ''whois_plant''
      then cmd_whois_plant g ev m w
      else if content_type m \<in> set [''photo''] \<and> states w (user_key m) = Some waiting_for_photo
      then on_photo ev m w
      else if states w (user_key m) = Some waiting_for_photo \<and>
              content_type m \<in> set [''text'', ''document'', ''audio'', ''video'']
      then handle_invalid_input g ev m w
      else (None, w))"

text \<open>The bot of main.py and the bot of papaboisfinal.py.\<close>

definition main_bot :: "env \<Rightarrow> message \<Rightarrow> world \<Rightarrow> exn option \<times> world" where
  "main_bot = dispatch (handle_photo main_glyphs) main_glyphs"

definition final_bot :: "env \<Rightarrow> message \<Rightarrow> world \<Rightarrow> exn option \<times> world" where
  "final_bot = dispatch handle_photo_final persona_glyphs"

subsection \<open>Sample inputs\<close>

text \<open>
  A response with two candidates, a Kindwise client whose knowledge base finds nothing and
  whose question is answered, the same client with the search down, and a Telegram side
  on which every call succeeds.
\<close>

definition mint :: suggestion where
  "mint = \<lparr>suggestion_id = ''a1'', name = ''Mentha spicata'',
            probability = float_of (987 / 1000), similar_images = None,
            suggestion_details = Value no_details\<rparr>"

definition basil :: suggestion where
  "basil = \<lparr>suggestion_id = ''b2'', name = ''Ocimum basilicum'',
             probability = float_of (1 / 100), similar_images = None,
             suggestion_details = Value no_details\<rparr>"

definition kindwise_up :: plant_api where
  "kindwise_up =
     \<lparr>identify =
        Inr \<lparr>access_token = ''tok'',
             result = Some \<lparr>classification = Some \<lparr>suggestions = [mint, basil]\<rparr>\<rparr>\<rparr>,
      search = (\<lambda>i. Inr []),
      get_kb_detail = (\<lambda>i. Inr no_details),
      ask_question = (\<lambda>i. Inr (Some [''Soothes the stomach'']))\<rparr>"

definition kindwise_search_down :: plant_api where
  "kindwise_search_down = kindwise_up\<lparr>search := (\<lambda>i. Inl ''timeout'')\<rparr>"

text \<open>The client of the command-line program, with the identification completed.\<close>

definition kindwise_cli :: plant_api_cli where
  "kindwise_cli =
     \<lparr>identify = Inr \<lparr>access_token = ''tok'', result = None\<rparr>,
      search = (\<lambda>i. Inr []),
      get_kb_detail = (\<lambda>i. Inr no_details),
      ask_question = (\<lambda>i. Inr (Some [''Soothes the stomach''])),
      get_identification =
        Inr (True,
             \<lparr>access_token = ''tok'',
              result = Some \<lparr>classification = Some \<lparr>suggestions = [mint, basil]\<rparr>\<rparr>\<rparr>)\<rparr>"

text \<open>
  A response that lists the same suggestion twice; one whose first suggestion comes with
  \<^verbatim>\<open>details = None\<close>; and one whose only suggestion has a probability that is not
  a number.
\<close>

definition kindwise_twins :: plant_api where
  "kindwise_twins =
     kindwise_up\<lparr>identify :=
        Inr \<lparr>access_token = ''tok'',
             result = Some \<lparr>classification = Some \<lparr>suggestions = [mint, mint]\<rparr>\<rparr>\<rparr>\<rparr>"

definition kindwise_bare :: plant_api where
  "kindwise_bare =
     kindwise_up\<lparr>identify :=
        Inr \<lparr>access_token = ''tok'',
             result = Some \<lparr>classification =
                             Some \<lparr>suggestions = [mint\<lparr>suggestion_details := Null\<rparr>, basil]\<rparr>\<rparr>\<rparr>\<rparr>"


definition no_openrouter :: "string \<Rightarrow> exn + response" where
  "no_openrouter prompt = Inl ''connection refused''"

text \<open>
  An endpoint that answers 503, one that answers 200 with an empty content, and one that
  answers 200 with a greeting.
\<close>

definition openrouter_busy :: "string \<Rightarrow> exn + response" where
  "openrouter_busy prompt = Inr \<lparr>status_code = 503, content = Inl ''Expecting value''\<rparr>"

definition openrouter_silent :: "string \<Rightarrow> exn + response" where
  "openrouter_silent prompt = Inr \<lparr>status_code = 200, content = Inr []\<rparr>"

definition openrouter_up :: "string \<Rightarrow> exn + response" where
  "openrouter_up prompt = Inr \<lparr>status_code = 200, content = Inr ''I am mint.''\<rparr>"

definition mint_info :: plant_info where
  "mint_info =
     \<lparr>info_name = ''Mentha spicata'', confidence = float_of (987 / 1000),
      info_details = no_details, healing_properties = Some ''Soothes the stomach''\<rparr>"

definition calm :: env where
  "calm =
     \<lparr>api = kindwise_up,
      post = no_openrouter,
      reply_to = (\<lambda>txt. None),
      edit_message_text = (\<lambda>txt. None),
      get_file = (\<lambda>file_id. Inr ''photos/file_1.jpg''),
      download_file = (\<lambda>file_path. Inr ''JPEG''),
      open_write = (\<lambda>path. Written),
      remove = (\<lambda>path. None)\<rparr>"

text \<open>The same outside, except that the temporary file cannot be removed.\<close>

definition stuck :: env where
  "stuck =
     calm\<lparr>remove := (\<lambda>path. Some (''[Errno 13] Permission denied: '' @ [CHR 0x27] @ path @
                                   [CHR 0x27]))\<rparr>"

text \<open>The outside with the search of the knowledge base down, and with OpenRouter up.\<close>

definition calm_search_down :: env where
  "calm_search_down = calm\<lparr>api := kindwise_search_down\<rparr>"

definition calm_openrouter_up :: env where
  "calm_openrouter_up = calm\<lparr>post := openrouter_up\<rparr>"

definition photo_message :: message where
  "photo_message =
     \<lparr>from_user_id = 42, chat_id = 42, content_type = ''photo'', command = None,
      photo = [''small'', ''large'']\<rparr>"

definition text_message :: message where
  "text_message =
     \<lparr>from_user_id = 42, chat_id = 42, content_type = ''text'', command = None, photo = []\<rparr>"

definition sticker_message :: message where
  "sticker_message =
     \<lparr>from_user_id = 42, chat_id = 42, content_type = ''sticker'', command = None, photo = []\<rparr>"

definition start_message :: message where
  "start_message =
     \<lparr>from_user_id = 42, chat_id = 42, content_type = ''text'', command = Some ''start'',
      photo = []\<rparr>"


definition awaiting :: world where
  "awaiting =
     \<lparr>states = [(42, 42) \<mapsto> waiting_for_photo], files = Map.empty, dirs = {}, trace = []\<rparr>"

text \<open>The same world with a directory where the temporary file of user 42 goes.\<close>

definition blocked :: world where
  "blocked = awaiting\<lparr>dirs := {''temp_plant_42.jpg''}\<rparr>"

definition leaf_on_disk :: "string \<rightharpoonup> string" where
  "leaf_on_disk = [''leaf.jpg'' \<mapsto> ''JPEG'']"

section \<open>Auxiliary facts\<close>

subsection \<open>Projections of the basic steps\<close>

lemma emit_simps [simp]:
  "states (emit t w) = states w"
  "files (emit t w) = files w"
  "dirs (emit t w) = dirs w"
  "trace (emit t w) = trace w @ t"
  by (simp_all add: emit_def)

lemma bot_edit_message_text_simps [simp]:
  "fst (bot_edit_message_text ev txt w) = edit_message_text ev txt"
  "states (snd (bot_edit_message_text ev txt w)) = states w"
  "files (snd (bot_edit_message_text ev txt w)) = files w"
  "dirs (snd (bot_edit_message_text ev txt w)) = dirs w"
  "trace (snd (bot_edit_message_text ev txt w)) =
     trace w @ [(EditMessageText txt, edit_message_text ev txt)]"
  by (simp_all add: bot_edit_message_text_def)

lemma bot_reply_to_simps [simp]:
  "fst (bot_reply_to ev txt w) = reply_to ev txt"
  "states (snd (bot_reply_to ev txt w)) = states w"
  "files (snd (bot_reply_to ev txt w)) = files w"
  "dirs (snd (bot_reply_to ev txt w)) = dirs w"
  "trace (snd (bot_reply_to ev txt w)) = trace w @ [(ReplyTo txt, reply_to ev txt)]"
  by (simp_all add: bot_reply_to_def)

lemma collect_length: "length (fst (collect a token first i ss)) = length ss"
  by (induction ss arbitrary: i) (simp_all add: split_beta)

lemma collect_pp_length:
  "collect_pp po first ss = (Inr rs, t) \<Longrightarrow> length rs = length ss"
  by (induction ss arbitrary: rs t) (auto split: prod.splits sum.splits)

subsection \<open>What the steps of the photo handlers leave unchanged\<close>

lemma download_photo_frame [simp]:
  "states (snd (download_photo g ev m w)) = states w"
  "files (snd (download_photo g ev m w)) = files w"
  "dirs (snd (download_photo g ev m w)) = dirs w"
  by (simp_all add: download_photo_def bot_reply_to_def split: option.splits list.splits sum.splits)

lemma save_photo_frame [simp]:
  "states (snd (save_photo ev path d w)) = states w"
  "dirs (snd (save_photo ev path d w)) = dirs w"
  "q \<noteq> path \<Longrightarrow> files (snd (save_photo ev path d w)) q = files w q"
  by (simp_all add: save_photo_def split: write_outcome.splits)

lemma save_photo_exists:
  "(files (snd (save_photo ev (photo_path m) d w)) (photo_path m) \<noteq> None \<or>
    photo_path m \<in> dirs w) = temp_exists_at_cleanup ev m w"
  by (auto simp: save_photo_def temp_exists_at_cleanup_def split: write_outcome.splits)

lemma process_photo_frame [simp]:
  "states (snd (process_photo g ev m d w)) = states w"
  "dirs (snd (process_photo g ev m d w)) = dirs w"
  "files (snd (process_photo g ev m d w)) = files (snd (save_photo ev (photo_path m) d w))"
  by (simp_all add: process_photo_def split_beta Let_def
      split: option.splits ident_result.splits prod.splits)

lemma process_photo_persona_frame [simp]:
  "states (snd (process_photo_persona ident persona g ev m d w)) = states w"
  "dirs (snd (process_photo_persona ident persona g ev m d w)) = dirs w"
  "files (snd (process_photo_persona ident persona g ev m d w)) =
     files (snd (save_photo ev (photo_path m) d w))"
  by (simp_all add: process_photo_persona_def split_beta Let_def
      split: option.splits ident_result.splits list.splits prod.splits)

lemma photo_except_frame [simp]:
  "states (snd (photo_except g ev r w)) = states w"
  "files (snd (photo_except g ev r w)) = files w"
  "dirs (snd (photo_except g ev r w)) = dirs w"
  by (simp_all add: photo_except_def split: option.splits)

subsection \<open>The finally of the photo handlers\<close>

lemma photo_finally_states:
  "states (snd (photo_finally ev m b r w)) =
     (if b \<and> (files w (photo_path m) \<noteq> None \<or> photo_path m \<in> dirs w) \<and>
         remove_raises ev w (photo_path m)
      then states w else (states w)(user_key m := None))"
  by (auto simp: photo_finally_def os_remove_def remove_raises_def split: option.splits)

lemma photo_finally_files:
  "files (snd (photo_finally ev m b r w)) =
     (if b \<and> \<not> remove_raises ev w (photo_path m)
      then (files w)(photo_path m := None) else files w)"
  by (auto simp: photo_finally_def os_remove_def remove_raises_def split: option.splits)

lemma photo_finally_dirs [simp]: "dirs (snd (photo_finally ev m b r w)) = dirs w"
  by (auto simp: photo_finally_def os_remove_def split: option.splits)

lemma photo_finally_fst:
  "fst (photo_finally ev m b r w) =
     (if b \<and> (files w (photo_path m) \<noteq> None \<or> photo_path m \<in> dirs w) \<and>
         remove_raises ev w (photo_path m)
      then Some (if photo_path m \<in> dirs w then is_a_directory (photo_path m)
                 else the (remove ev (photo_path m)))
      else r)"
  by (auto simp: photo_finally_def os_remove_def remove_raises_def split: option.splits)

text \<open>Both photo handlers end in the finally, whatever the try and the except did.\<close>

lemma handle_photo_unfold:
  "handle_photo g ev m w =
     (case download_photo g ev m w of
        (Inl e, w1) \<Rightarrow>
          photo_finally ev m False (fst (photo_except g ev (Some e) w1))
            (snd (photo_except g ev (Some e) w1))
      | (Inr d, w1) \<Rightarrow>
          photo_finally ev m True
            (fst (photo_except g ev (fst (process_photo g ev m d w1))
                    (snd (process_photo g ev m d w1))))
            (snd (photo_except g ev (fst (process_photo g ev m d w1))
                    (snd (process_photo g ev m d w1)))))"
  by (simp add: handle_photo_def split_beta split: prod.splits sum.splits)

lemma handle_photo_persona_unfold:
  "handle_photo_persona ident persona g ev m w =
     (case download_photo g ev m w of
        (Inl e, w1) \<Rightarrow>
          photo_finally ev m False (fst (photo_except g ev (Some e) w1))
            (snd (photo_except g ev (Some e) w1))
      | (Inr d, w1) \<Rightarrow>
          photo_finally ev m True
            (fst (photo_except g ev (fst (process_photo_persona ident persona g ev m d w1))
                    (snd (process_photo_persona ident persona g ev m d w1))))
            (snd (photo_except g ev (fst (process_photo_persona ident persona g ev m d w1))
                    (snd (process_photo_persona ident persona g ev m d w1)))))"
  by (simp add: handle_photo_persona_def split_beta split: prod.splits sum.splits)

text \<open>
  The finally after a try that got as far as the temporary path: \<open>w1\<close> is the world after
  the download, \<open>w3\<close> the world after the rest of the try and the except.
\<close>

lemma finally_after_save:
  assumes "states w1 = states w" and "files w1 = files w" and "dirs w1 = dirs w"
    and "states w3 = states w1" and "dirs w3 = dirs w1"
    and "files w3 = files (snd (save_photo ev (photo_path m) d w1))"
  shows "states (snd (photo_finally ev m True r w3)) =
           (if temp_exists_at_cleanup ev m w \<and> remove_raises ev w (photo_path m)
            then states w else (states w)(user_key m := None))"
    and "q \<noteq> photo_path m \<Longrightarrow> files (snd (photo_finally ev m True r w3)) q = files w q"
    and "\<not> remove_raises ev w (photo_path m) \<Longrightarrow>
           files (snd (photo_finally ev m True r w3)) (photo_path m) = None"
    and "remove_raises ev w (photo_path m) \<Longrightarrow>
           files (snd (photo_finally ev m True r w3)) (photo_path m) =
             files (snd (save_photo ev (photo_path m) d w1)) (photo_path m)"
    and "temp_exists_at_cleanup ev m w \<Longrightarrow> remove_raises ev w (photo_path m) \<Longrightarrow>
           fst (photo_finally ev m True r w3) =
             Some (if photo_path m \<in> dirs w then is_a_directory (photo_path m)
                   else the (remove ev (photo_path m)))"
proof -
  have e: "temp_exists_at_cleanup ev m w1 = temp_exists_at_cleanup ev m w"
    using assms(2,3) by (simp add: temp_exists_at_cleanup_def)
  have x: "(files w3 (photo_path m) \<noteq> None \<or> photo_path m \<in> dirs w3) =
             temp_exists_at_cleanup ev m w"
    using save_photo_exists [of ev m d w1] assms(5,6) e by simp
  have rr: "remove_raises ev w3 (photo_path m) = remove_raises ev w (photo_path m)"
    using assms(3,5) by (simp add: remove_raises_def)
  show "states (snd (photo_finally ev m True r w3)) =
           (if temp_exists_at_cleanup ev m w \<and> remove_raises ev w (photo_path m)
            then states w else (states w)(user_key m := None))"
    unfolding photo_finally_states x rr using assms(1,4) by simp
  show "q \<noteq> photo_path m \<Longrightarrow> files (snd (photo_finally ev m True r w3)) q = files w q"
    unfolding photo_finally_files using assms(2,6) by simp
  show "\<not> remove_raises ev w (photo_path m) \<Longrightarrow>
           files (snd (photo_finally ev m True r w3)) (photo_path m) = None"
    unfolding photo_finally_files rr by simp
  show "remove_raises ev w (photo_path m) \<Longrightarrow>
           files (snd (photo_finally ev m True r w3)) (photo_path m) =
             files (snd (save_photo ev (photo_path m) d w1)) (photo_path m)"
    unfolding photo_finally_files rr using assms(6) by simp
  show "temp_exists_at_cleanup ev m w \<Longrightarrow> remove_raises ev w (photo_path m) \<Longrightarrow>
           fst (photo_finally ev m True r w3) =
             Some (if photo_path m \<in> dirs w then is_a_directory (photo_path m)
                   else the (remove ev (photo_path m)))"
    unfolding photo_finally_fst x rr using assms(3,5) by simp
qed

lemma handle_photo_states:
  "states (snd (handle_photo g ev m w)) =
     (if cleanup_raises g ev m w then states w else (states w)(user_key m := None))"
proof -
  obtain x w1 where dl: "download_photo g ev m w = (x, w1)" by (cases "download_photo g ev m w")
  have f: "states w1 = states w" "files w1 = files w" "dirs w1 = dirs w"
    using download_photo_frame [of g ev m w] by (simp_all add: dl)
  show ?thesis
  proof (cases x)
    case (Inl e)
    then show ?thesis
      by (simp add: handle_photo_unfold dl cleanup_raises_def photo_finally_states f)
  next
    case (Inr d)
    then show ?thesis
      by (simp add: handle_photo_unfold dl cleanup_raises_def
          finally_after_save(1) [OF f])
  qed
qed

lemma handle_photo_persona_states:
  "states (snd (handle_photo_persona ident persona g ev m w)) =
     (if cleanup_raises g ev m w then states w else (states w)(user_key m := None))"
proof -
  obtain x w1 where dl: "download_photo g ev m w = (x, w1)" by (cases "download_photo g ev m w")
  have f: "states w1 = states w" "files w1 = files w" "dirs w1 = dirs w"
    using download_photo_frame [of g ev m w] by (simp_all add: dl)
  show ?thesis
  proof (cases x)
    case (Inl e)
    then show ?thesis
      by (simp add: handle_photo_persona_unfold dl cleanup_raises_def photo_finally_states f)
  next
    case (Inr d)
    then show ?thesis
      by (simp add: handle_photo_persona_unfold dl cleanup_raises_def
          finally_after_save(1) [OF f])
  qed
qed



text \<open>
  When the removal of the temporary file does not raise, the file is gone after a request
  whose download returned.
\<close>

lemma handle_photo_removes:
  assumes "\<not> isl (fst (download_photo g ev m w))" and "\<not> remove_raises ev w (photo_path m)"
  shows "files (snd (handle_photo g ev m w)) (photo_path m) = None"
    and "files (snd (handle_photo_persona ident persona g ev m w)) (photo_path m) = None"
proof -
  obtain x w1 where dl: "download_photo g ev m w = (x, w1)" by (cases "download_photo g ev m w")
  have f: "states w1 = states w" "files w1 = files w" "dirs w1 = dirs w"
    using download_photo_frame [of g ev m w] by (simp_all add: dl)
  from assms(1) obtain d where x: "x = Inr d" by (cases x) (simp_all add: dl)
  show "files (snd (handle_photo g ev m w)) (photo_path m) = None"
    by (simp add: handle_photo_unfold dl x finally_after_save(3) [OF f _ _ _ assms(2)])
  show "files (snd (handle_photo_persona ident persona g ev m w)) (photo_path m) = None"
    by (simp add: handle_photo_persona_unfold dl x finally_after_save(3) [OF f _ _ _ assms(2)])
qed

text \<open>
  When the removal raises, its exception leaves the handler, and the file is as the open
  left it.
\<close>

lemma handle_photo_stuck:
  assumes "download_photo g ev m w = (Inr d, w1)"
    and "temp_exists_at_cleanup ev m w" and "remove_raises ev w (photo_path m)"
  shows "fst (handle_photo g ev m w) =
           Some (if photo_path m \<in> dirs w then is_a_directory (photo_path m)
                 else the (remove ev (photo_path m)))"
    and "fst (handle_photo_persona ident persona g ev m w) =
           Some (if photo_path m \<in> dirs w then is_a_directory (photo_path m)
                 else the (remove ev (photo_path m)))"
    and "files (snd (handle_photo g ev m w)) (photo_path m) =
           files (snd (save_photo ev (photo_path m) d w1)) (photo_path m)"
    and "files (snd (handle_photo_persona ident persona g ev m w)) (photo_path m) =
           files (snd (save_photo ev (photo_path m) d w1)) (photo_path m)"
proof -
  have f: "states w1 = states w" "files w1 = files w" "dirs w1 = dirs w"
    using download_photo_frame [of g ev m w] by (simp_all add: assms(1))
  show "fst (handle_photo g ev m w) =
           Some (if photo_path m \<in> dirs w then is_a_directory (photo_path m)
                 else the (remove ev (photo_path m)))"
    by (simp add: handle_photo_unfold assms(1) finally_after_save(5) [OF f _ _ _ assms(2,3)])
  show "fst (handle_photo_persona ident persona g ev m w) =
           Some (if photo_path m \<in> dirs w then is_a_directory (photo_path m)
                 else the (remove ev (photo_path m)))"
    by (simp add: handle_photo_persona_unfold assms(1)
        finally_after_save(5) [OF f _ _ _ assms(2,3)])
  show "files (snd (handle_photo g ev m w)) (photo_path m) =
           files (snd (save_photo ev (photo_path m) d w1)) (photo_path m)"
    by (simp add: handle_photo_unfold assms(1) finally_after_save(4) [OF f _ _ _ assms(3)])
  show "files (snd (handle_photo_persona ident persona g ev m w)) (photo_path m) =
           files (snd (save_photo ev (photo_path m) d w1)) (photo_path m)"
    by (simp add: handle_photo_persona_unfold assms(1)
        finally_after_save(4) [OF f _ _ _ assms(3)])
qed

subsection \<open>The paths opened for writing\<close>

lemma written_simps [simp]:
  "written [] = []"
  "written (t @ u) = written t @ written u"
  "written ((OpenWrite path, x) # t) = path # written t"
  "written ((Identify p, x) # t) = written t"
  "written ((Search n, x) # t) = written t"
  "written ((KbDetail k, x) # t) = written t"
  "written ((AskQuestion k, x) # t) = written t"
  "written ((Post k, x) # t) = written t"
  "written ((ReplyTo k, x) # t) = written t"
  "written ((EditMessageText k, x) # t) = written t"
  "written ((GetFile k, x) # t) = written t"
  "written ((DownloadFile k, x) # t) = written t"
  "written ((Remove k, x) # t) = written t"
  by (simp_all add: written_def)

lemma written_candidate_info [simp]: "written (snd (candidate_info a token first i s)) = []"
  by (simp add: candidate_info_def lookup_details_def ask_healing_def Let_def split_beta
      split: sum.splits list.splits option.splits)

lemma written_collect [simp]: "written (snd (collect a token first k ss)) = []"
  by (induction ss arbitrary: k) (simp_all add: split_beta)

lemma written_identify [simp]: "written (snd (identify_plant_from_path a fs p)) = []"
  by (simp add: identify_plant_from_path_def identify_try_def split_beta
      split: sum.splits list.splits option.splits)

lemma written_persona [simp]: "written (snd (get_plant_persona po plant)) = []"
  by (simp add: get_plant_persona_def persona_try_def split: sum.splits)



lemma written_except [simp]:
  "written (trace (snd (photo_except g ev r w))) = written (trace w)"
  by (simp add: photo_except_def split: option.splits)

lemma written_finally [simp]:
  "written (trace (snd (photo_finally ev m b r w))) = written (trace w)"
  by (auto simp: photo_finally_def os_remove_def split: option.splits)





subsection \<open>The sample request\<close>

lemma photo_path_sample: "photo_path photo_message = ''temp_plant_42.jpg''"
  by (simp add: photo_path_def photo_message_def str_int_def str_nat.simps digit_char_def)

lemma download_sample:
  "reply_to ev (processing_text g) = None \<Longrightarrow>
   get_file ev ''large'' = Inr ''photos/file_1.jpg'' \<Longrightarrow>
   download_file ev ''photos/file_1.jpg'' = Inr ''JPEG'' \<Longrightarrow>
   download_photo g ev photo_message w =
     (Inr ''JPEG'',
      emit [(GetFile ''large'', None), (DownloadFile ''photos/file_1.jpg'', None)]
        (snd (bot_reply_to ev (processing_text g) w)))"
  by (simp add: download_photo_def bot_reply_to_def photo_message_def)

lemma calm_simps [simp]:
  "reply_to calm txt = None"
  "edit_message_text calm txt = None"
  "get_file calm fid = Inr ''photos/file_1.jpg''"
  "download_file calm fp = Inr ''JPEG''"
  "open_write calm path = Written"
  "remove calm path = None"
  "api calm = kindwise_up"
  "post calm = no_openrouter"
  by (simp_all add: calm_def)

lemma stuck_simps [simp]:
  "reply_to stuck txt = None"
  "edit_message_text stuck txt = None"
  "get_file stuck fid = Inr ''photos/file_1.jpg''"
  "download_file stuck fp = Inr ''JPEG''"
  "open_write stuck path = Written"
  "remove stuck path =
     Some (''[Errno 13] Permission denied: '' @ [CHR 0x27] @ path @ [CHR 0x27])"
  "api stuck = kindwise_up"
  "post stuck = no_openrouter"
  by (simp_all add: stuck_def calm_def)

lemma awaiting_simps [simp]:
  "states awaiting = [(42, 42) \<mapsto> waiting_for_photo]"
  "files awaiting = Map.empty"
  "dirs awaiting = {}"
  "trace awaiting = []"
  "states blocked = [(42, 42) \<mapsto> waiting_for_photo]"
  "files blocked = Map.empty"
  "dirs blocked = {''temp_plant_42.jpg''}"
  "trace blocked = []"
  "user_key photo_message = (42, 42)"
  "user_key text_message = (42, 42)"
  by (simp_all add: awaiting_def blocked_def user_key_def photo_message_def text_message_def)

subsection \<open>Rounding to a double\<close>






lemma round_double_zero [simp]: "round_double 0 = Some 0"
  by (simp add: round_double_def)



subsection \<open>Numbers, percentages and the loop of the reply\<close>















lemma format_loop_concat:
  "format_loop f idx ps acc = acc @ concat (map (\<lambda>i. f (idx + i) (ps ! i)) [0..<length ps])"
proof (induction ps arbitrary: idx acc)
  case Nil
  then show ?case by simp
next
  case (Cons q qs)
  have "map (\<lambda>i. f (idx + i) ((q # qs) ! i)) [0..<length (q # qs)]
        = f idx q # map (\<lambda>i. f (Suc idx + i) (qs ! i)) [0..<length qs]"
    by (simp add: upt_conv_Cons map_Suc_upt [symmetric] del: upt_Suc)
  then show ?case using Cons by simp
qed

lemma format_samples:
  "format_percent1 (float_of (987 / 1000)) = ''98.7%''"
  "format_percent1 (float_of (1 / 100)) = ''1.0%''"
  "format_percent1 (float_of (3 / 2000)) = ''0.1%''"
  by code_simp+


lemma str_nat_small:
  "str_nat (Suc 0) = ''1''" "str_nat (Suc (Suc 0)) = ''2''" "str_nat (Suc (Suc (Suc 0))) = ''3''"
  by (simp_all add: str_nat.simps digit_char_def)

subsection \<open>The results of the loop over the candidates\<close>

lemma collect_nth:
  "i < length ss \<Longrightarrow>
   fst (collect a token first k ss) ! i = fst (candidate_info a token first (k + i) (ss ! i))"
proof (induction ss arbitrary: k i)
  case Nil
  then show ?case by simp
next
  case (Cons s ss)
  show ?case
  proof (cases i)
    case 0
    then show ?thesis by (simp add: split_beta)
  next
    case (Suc j)
    with Cons.prems have "j < length ss" by simp
    from Cons.IH [OF this, of "Suc k"] Suc show ?thesis by (simp add: split_beta)
  qed
qed


lemma candidate_info_kb_raises:
  "kb_lookup_raises a i \<Longrightarrow>
   candidate_info a token first i s =
     (\<lparr>info_name = name s, confidence = probability s,
       info_details = no_details, healing_properties = None\<rparr>,
      snd (snd (lookup_details a i s
        \<lparr>info_name = name s, confidence = probability s,
         info_details = no_details, healing_properties = None\<rparr>)))"
  by (auto simp: kb_lookup_raises_def candidate_info_def lookup_details_def isl_def
      split: sum.splits list.splits)

lemma candidates_identify:
  "candidates a = c # cs \<Longrightarrow>
   \<exists>idn r cl. identify a = Inr idn \<and> result idn = Some r \<and> classification r = Some cl \<and>
     suggestions cl = c # cs"
  by (auto simp: candidates_def split: sum.splits option.splits)

lemma identify_success:
  assumes "fs p \<noteq> None" and "candidates a = c # cs"
  shows "identify_plant_from_path a fs p =
           (Success (fst (collect a (access_token (projr (identify a))) c 0
                            (take 3 (candidates a)))),
            (Identify p, None) #
            snd (collect a (access_token (projr (identify a))) c 0 (take 3 (candidates a))))"
  using assms candidates_identify [OF assms(2)]
  by (auto simp: identify_plant_from_path_def identify_try_def split_beta)



subsection \<open>The loop of plantpersona.py\<close>

lemma candidate_info_pp_fails:
  "isl (fst (candidate_info_pp po first s)) \<longleftrightarrow> suggestion_details s = Null"
  by (simp add: candidate_info_pp_def Let_def split: field.splits)


lemma collect_pp_fails:
  "isl (fst (collect_pp po first ss)) \<longleftrightarrow> list_ex (\<lambda>s. suggestion_details s = Null) ss"
proof (induction ss)
  case Nil
  then show ?case by simp
next
  case (Cons s ss)
  show ?case
    using Cons candidate_info_pp_fails [of po first s]
    by (cases "candidate_info_pp po first s"; cases "collect_pp po first ss")
      (auto split: sum.splits)
qed

lemma collect_pp_nth:
  "collect_pp po first ss = (Inr rs, t) \<Longrightarrow> i < length ss \<Longrightarrow>
   fst (candidate_info_pp po first (ss ! i)) = Inr (rs ! i)"
proof (induction ss arbitrary: rs t i)
  case Nil
  then show ?case by simp
next
  case (Cons s ss)
  from Cons.prems(1) obtain info t1 infos ts where
    a: "candidate_info_pp po first s = (Inr info, t1)"
    and b: "collect_pp po first ss = (Inr infos, ts)" and r: "rs = info # infos"
    by (auto split: prod.splits sum.splits)
  show ?case
  proof (cases i)
    case 0
    then show ?thesis by (simp add: a r)
  next
    case (Suc j)
    with Cons.prems(2) have "j < length ss" by simp
    from Cons.IH [OF b this] Suc show ?thesis by (simp add: r)
  qed
qed

lemma identify_pp_unfold:
  assumes "fs p \<noteq> None" and "candidates a = c # cs"
  shows "identify_plant_from_path_pp a po fs p =
           (case collect_pp po c (take 3 (candidates a)) of
              (Inl e, t) \<Rightarrow> (Error e, (Identify p, None) # t)
            | (Inr rs, t) \<Rightarrow> (Success rs, (Identify p, None) # t))"
  using assms candidates_identify [OF assms(2)]
  by (auto simp: identify_plant_from_path_pp_def identify_try_pp_def
      split: prod.splits sum.splits)



lemma identify_pp_forms:
  "((\<exists>msg. fst (identify_plant_from_path_pp a po fs p) = Error msg) \<longleftrightarrow>
      fs p = None \<or> isl (identify a) \<or> lacks_payload a \<or> candidates a = [] \<or>
      details_missing a)"
  "((\<exists>rs. rs \<noteq> [] \<and> fst (identify_plant_from_path_pp a po fs p) = Success rs) \<longleftrightarrow>
      \<not> (fs p = None \<or> isl (identify a) \<or> lacks_payload a \<or> candidates a = [] \<or>
         details_missing a))"
proof -
  have "((\<exists>msg. fst (identify_plant_from_path_pp a po fs p) = Error msg) \<longleftrightarrow>
      fs p = None \<or> isl (identify a) \<or> lacks_payload a \<or> candidates a = [] \<or>
      details_missing a) \<and>
    ((\<exists>rs. rs \<noteq> [] \<and> fst (identify_plant_from_path_pp a po fs p) = Success rs) \<longleftrightarrow>
      \<not> (fs p = None \<or> isl (identify a) \<or> lacks_payload a \<or> candidates a = [] \<or>
         details_missing a))"
  proof (cases "fs p = None \<or> candidates a = []")
    case True
    then show ?thesis
      unfolding identify_plant_from_path_pp_def identify_try_pp_def candidates_def
      by (auto split: sum.splits option.splits list.splits)
  next
    case False
    then obtain c cs where f: "fs p \<noteq> None" and c: "candidates a = c # cs"
      by (cases "candidates a") auto
    from candidates_identify [OF c] have n: "\<not> isl (identify a)" "\<not> lacks_payload a"
      by (auto simp: lacks_payload_def)
    obtain x t where k: "collect_pp po c (take 3 (candidates a)) = (x, t)"
      by (cases "collect_pp po c (take 3 (candidates a))")
    have m: "isl x \<longleftrightarrow> details_missing a"
      using collect_pp_fails [of po c "take 3 (candidates a)"] by (simp add: k details_missing_def)
    show ?thesis
    proof (cases x)
      case (Inl e)
      with m show ?thesis
        by (simp add: identify_pp_unfold [where fs = fs and p = p, OF f c] k)
    next
      case (Inr rs)
      from collect_pp_length [of po c "take 3 (candidates a)" rs t] k Inr
      have "rs \<noteq> []" by (auto simp: c)
      moreover have "candidates a \<noteq> []" by (simp add: c)
      ultimately show ?thesis
        using m Inr
        by (simp add: identify_pp_unfold [where fs = fs and p = p, OF f c] k n f)
    qed
  qed
  then show
    "((\<exists>msg. fst (identify_plant_from_path_pp a po fs p) = Error msg) \<longleftrightarrow>
      fs p = None \<or> isl (identify a) \<or> lacks_payload a \<or> candidates a = [] \<or>
      details_missing a)"
    "((\<exists>rs. rs \<noteq> [] \<and> fst (identify_plant_from_path_pp a po fs p) = Success rs) \<longleftrightarrow>
      \<not> (fs p = None \<or> isl (identify a) \<or> lacks_payload a \<or> candidates a = [] \<or>
         details_missing a))"
    by blast+
qed

lemma identify_forms:
  "((\<exists>msg. fst (identify_plant_from_path a fs p) = Error msg) \<longleftrightarrow>
      fs p = None \<or> isl (identify a) \<or> lacks_payload a \<or> candidates a = [])"
  "((\<exists>rs. rs \<noteq> [] \<and> fst (identify_plant_from_path a fs p) = Success rs) \<longleftrightarrow>
      \<not> (fs p = None \<or> isl (identify a) \<or> lacks_payload a \<or> candidates a = []))"
  unfolding identify_plant_from_path_def identify_try_def lacks_payload_def candidates_def
  using collect_length [of a _ _ 0]
  by (auto simp: split_beta split: sum.splits option.splits list.splits)

subsection \<open>Placeholders\<close>

lemma placeholders_nonempty:
  "meditation_text \<noteq> []" "communing_text \<noteq> []" "quiet_text \<noteq> []" "veiled_text \<noteq> []"
  "eludes_text \<noteq> []"
  by (simp_all add: meditation_text_def communing_text_def quiet_text_def veiled_text_def
      eludes_text_def)

lemma openrouter_placeholder:
  "request_fails po prompt \<Longrightarrow> fst (get_openrouter_response po prompt) \<in> {quiet_text, veiled_text}"
  by (auto simp: request_fails_def get_openrouter_response_def openrouter_try_def isl_def
      split: sum.splits)

lemma persona_placeholder:
  "(case persona_prompt plant of Inl e \<Rightarrow> True | Inr prompt \<Rightarrow> request_fails po prompt) \<Longrightarrow>
   fst (get_plant_persona po plant) \<in> {meditation_text, communing_text}"
  by (auto simp: request_fails_def get_plant_persona_def persona_try_def isl_def
      split: sum.splits)

lemma persona_pp_placeholder:
  "(case persona_prompt_pp plant of Inl e \<Rightarrow> True | Inr prompt \<Rightarrow> request_fails po prompt) \<Longrightarrow>
   fst (get_plant_persona_pp po plant) \<in> {quiet_text, veiled_text, eludes_text}"
  using openrouter_placeholder [of po]
  by (auto simp: get_plant_persona_pp_def split: sum.splits)

lemma answer_returned:
  assumes "po prompt = Inr r" and "status_code r = 200" and "content r = Inr c"
  shows "get_openrouter_response po prompt = (c, [(Post prompt, None)])"
    and "persona_prompt plant = Inr prompt \<Longrightarrow>
         get_plant_persona po plant = (c, [(Post prompt, None)])"
    and "persona_prompt_pp plant = Inr prompt \<Longrightarrow>
         get_plant_persona_pp po plant = (c, [(Post prompt, None)])"
  using assms
  by (simp_all add: get_openrouter_response_def openrouter_try_def get_plant_persona_def
      persona_try_def get_plant_persona_pp_def)

lemma process_photo_persona_success:
  assumes "photo_path m \<notin> dirs w" and "open_write ev (photo_path m) = Written"
    and "ident ev ((files w)(photo_path m \<mapsto> d)) (photo_path m) = (Success (tp # rest), t)"
    and "edit_message_text ev (format_response_short g (tp # rest)) = None"
    and "reply_to ev channel_text = None"
  shows "trace (snd (process_photo_persona ident persona g ev m d w)) =
           trace w @ [(OpenWrite (photo_path m), None)] @ t @
           [(EditMessageText (format_response_short g (tp # rest)), None),
            (ReplyTo channel_text, None)] @
           snd (persona ev tp) @
           [(ReplyTo (plant_message_header @ fst (persona ev tp)),
             reply_to ev (plant_message_header @ fst (persona ev tp)))]"
    and "fst (process_photo_persona ident persona g ev m d w) =
           reply_to ev (plant_message_header @ fst (persona ev tp))"
  using assms
  by (simp_all add: process_photo_persona_def save_photo_def split_beta
      bot_edit_message_text_def bot_reply_to_def emit_def)

subsection \<open>Counting the narrative requests\<close>

lemma asked_simps [simp]:
  "asked [] = 0"
  "asked (t @ u) = asked t + asked u"
  "asked ((AskQuestion token, x) # t) = Suc (asked t)"
  "asked ((Search n, x) # t) = asked t"
  "asked ((KbDetail k, x) # t) = asked t"
  "asked ((Identify p, x) # t) = asked t"
  "asked ((Post q, x) # t) = asked t"
  "asked ((ReplyTo q, x) # t) = asked t"
  "asked ((EditMessageText q, x) # t) = asked t"
  "asked ((GetFile q, x) # t) = asked t"
  "asked ((DownloadFile q, x) # t) = asked t"
  "asked ((OpenWrite q, x) # t) = asked t"
  "asked ((Remove q, x) # t) = asked t"
  by (simp_all add: asked_def)

lemma posted_simps [simp]:
  "posted [] = 0"
  "posted (t @ u) = posted t + posted u"
  "posted ((Post q, x) # t) = Suc (posted t)"
  "posted ((AskQuestion token, x) # t) = posted t"
  "posted ((Search n, x) # t) = posted t"
  "posted ((KbDetail k, x) # t) = posted t"
  "posted ((Identify p, x) # t) = posted t"
  "posted ((ReplyTo q, x) # t) = posted t"
  "posted ((EditMessageText q, x) # t) = posted t"
  "posted ((GetFile q, x) # t) = posted t"
  "posted ((DownloadFile q, x) # t) = posted t"
  "posted ((OpenWrite q, x) # t) = posted t"
  "posted ((Remove q, x) # t) = posted t"
  by (simp_all add: posted_def)





lemma posted_candidate_info [simp]: "posted (snd (candidate_info a token first i s)) = 0"
  by (simp add: candidate_info_def lookup_details_def ask_healing_def Let_def split_beta
      split: sum.splits list.splits option.splits)

lemma posted_collect [simp]: "posted (snd (collect a token first k ss)) = 0"
  by (induction ss arbitrary: k) (simp_all add: split_beta)

lemma posted_identify [simp]: "posted (snd (identify_plant_from_path a fs p)) = 0"
  by (simp add: identify_plant_from_path_def identify_try_def split_beta
      split: sum.splits list.splits option.splits)



lemma posted_openrouter: "posted (snd (get_openrouter_response po prompt)) = 1"
  by (simp add: get_openrouter_response_def openrouter_try_def split: sum.splits prod.splits)

lemma asked_openrouter [simp]: "asked (snd (get_openrouter_response po prompt)) = 0"
  by (simp add: get_openrouter_response_def openrouter_try_def split: sum.splits prod.splits)

lemma posted_candidate_info_pp:
  "posted (snd (candidate_info_pp po first s)) =
     (if s = first \<and> suggestion_details s \<noteq> Null then 1 else 0)"
  by (simp add: candidate_info_pp_def Let_def get_healing_properties_def posted_openrouter
      split: field.splits)

lemma asked_candidate_info_pp [simp]: "asked (snd (candidate_info_pp po first s)) = 0"
  by (simp add: candidate_info_pp_def Let_def get_healing_properties_def split: field.splits)

lemma posted_collect_pp_others:
  "first \<notin> set ss \<Longrightarrow> posted (snd (collect_pp po first ss)) = 0"
proof (induction ss)
  case Nil
  then show ?case by simp
next
  case (Cons s ss)
  then have "posted (snd (candidate_info_pp po first s)) = 0"
    and "posted (snd (collect_pp po first ss)) = 0"
    by (auto simp: posted_candidate_info_pp)
  then show ?case
    by (cases "candidate_info_pp po first s"; cases "collect_pp po first ss")
      (auto split: sum.splits)
qed

lemma asked_collect_pp [simp]: "asked (snd (collect_pp po first ss)) = 0"
proof (induction ss)
  case Nil
  then show ?case by simp
next
  case (Cons s ss)
  have "asked (snd (candidate_info_pp po first s)) = 0" by simp
  with Cons show ?case
    by (cases "candidate_info_pp po first s"; cases "collect_pp po first ss")
      (auto split: sum.splits)
qed

lemma asked_identify_pp [simp]: "asked (snd (identify_plant_from_path_pp a po fs p)) = 0"
proof (cases "fs p = None \<or> candidates a = []")
  case True
  then show ?thesis
    unfolding identify_plant_from_path_pp_def identify_try_pp_def candidates_def
    by (auto split: sum.splits option.splits list.splits)
next
  case False
  then obtain c cs where f: "fs p \<noteq> None" and c: "candidates a = c # cs"
    by (cases "candidates a") auto
  obtain x t where k: "collect_pp po c (take 3 (candidates a)) = (x, t)"
    by (cases "collect_pp po c (take 3 (candidates a))")
  have "asked t = 0" using asked_collect_pp [of po c "take 3 (candidates a)"] by (simp add: k)
  then show ?thesis
    by (cases x) (simp_all add: identify_pp_unfold [where fs = fs and p = p, OF f c] k)
qed


text \<open>
  Why \<open>asked_identify\<close> asks that no later candidate equals the first: the code compares
  the suggestions (\<^verbatim>\<open>suggestion == suggestions[0]\<close>), not their positions, so a response
  that lists the top suggestion twice has the question asked twice.
\<close>

lemma twin_suggestions_ask_twice:
  "snd (identify_plant_from_path kindwise_twins leaf_on_disk ''leaf.jpg'') =
     [(Identify ''leaf.jpg'', None),
      (Search ''Mentha spicata'', None), (AskQuestion ''tok'', None),
      (Search ''Mentha spicata'', None), (AskQuestion ''tok'', None)]"
  by (simp add: identify_plant_from_path_def identify_try_def kindwise_twins_def
      kindwise_up_def leaf_on_disk_def mint_def candidate_info_def lookup_details_def
      ask_healing_def)

lemma posted_identify_pp:
  assumes "top_unique a"
  shows "posted (snd (identify_plant_from_path_pp a po fs p)) =
           (if fs p = None \<or> isl (identify a) \<or> lacks_payload a \<or> candidates a = [] \<or>
               suggestion_details (hd (candidates a)) = Null
            then 0 else 1)"
proof (cases "fs p = None \<or> candidates a = []")
  case True
  then show ?thesis
    unfolding identify_plant_from_path_pp_def identify_try_pp_def candidates_def
    by (auto split: sum.splits option.splits list.splits)
next
  case False
  then obtain c cs where f: "fs p \<noteq> None" and c: "candidates a = c # cs"
    by (cases "candidates a") auto
  from candidates_identify [OF c] have n: "\<not> isl (identify a)" "\<not> lacks_payload a"
    by (auto simp: lacks_payload_def)
  from assms have u: "c \<notin> set (take 2 cs)" by (simp add: top_unique_def c)
  have o: "posted (snd (collect_pp po c (take 2 cs))) = 0"
    using u by (rule posted_collect_pp_others)
  have "posted (snd (collect_pp po c (take 3 (c # cs)))) =
          (if suggestion_details c = Null then 0 else 1)"
    using o posted_candidate_info_pp [of po c c] candidate_info_pp_fails [of po c c]
    by (cases "candidate_info_pp po c c"; cases "collect_pp po c (take 2 cs)")
      (auto split: sum.splits)
  then have "posted (snd (case collect_pp po c (take 3 (c # cs)) of
                 (Inl e, t) \<Rightarrow> (Error e, (Identify p, None) # t)
               | (Inr rs, t) \<Rightarrow> (Success rs, (Identify p, None) # t))) =
          (if suggestion_details c = Null then 0 else 1)"
    by (cases "collect_pp po c (take 3 (c # cs))") (auto split: sum.splits)
  then show ?thesis
    using f n by (simp add: identify_pp_unfold [where fs = fs and p = p, OF f c] c)
qed


lemma asked_persona [simp]: "asked (snd (get_plant_persona po plant)) = 0"
  by (simp add: get_plant_persona_def persona_try_def split: sum.splits prod.splits)


lemma asked_persona_pp [simp]: "asked (snd (get_plant_persona_pp po plant)) = 0"
  by (simp add: get_plant_persona_pp_def split: sum.splits)

subsection \<open>The requests of one photo request\<close>

lemma count_download [simp]:
  "asked (trace (snd (download_photo g ev m w))) = asked (trace w)"
  "posted (trace (snd (download_photo g ev m w))) = posted (trace w)"
  by (simp_all add: download_photo_def bot_reply_to_def split: option.splits list.splits sum.splits)


lemma count_except [simp]:
  "asked (trace (snd (photo_except g ev r w))) = asked (trace w)"
  "posted (trace (snd (photo_except g ev r w))) = posted (trace w)"
  by (simp_all add: photo_except_def split: option.splits)

lemma count_finally [simp]:
  "asked (trace (snd (photo_finally ev m b r w))) = asked (trace w)"
  "posted (trace (snd (photo_finally ev m b r w))) = posted (trace w)"
  by (auto simp: photo_finally_def os_remove_def split: option.splits)










subsection \<open>What the user is sent\<close>

lemma sent_simps [simp]:
  "sent [] = []"
  "sent (t @ u) = sent t @ sent u"
  "sent ((ReplyTo txt, x) # t) = txt # sent t"
  "sent ((EditMessageText txt, x) # t) = txt # sent t"
  "sent ((Identify p, x) # t) = sent t"
  "sent ((Search n, x) # t) = sent t"
  "sent ((KbDetail k, x) # t) = sent t"
  "sent ((AskQuestion k, x) # t) = sent t"
  "sent ((Post k, x) # t) = sent t"
  "sent ((GetFile k, x) # t) = sent t"
  "sent ((DownloadFile k, x) # t) = sent t"
  "sent ((OpenWrite k, x) # t) = sent t"
  "sent ((Remove k, x) # t) = sent t"
  by (simp_all add: sent_def)

lemma sent_candidate_info [simp]: "sent (snd (candidate_info a token first i s)) = []"
  by (simp add: candidate_info_def lookup_details_def ask_healing_def Let_def split_beta
      split: sum.splits list.splits option.splits)

lemma sent_collect [simp]: "sent (snd (collect a token first k ss)) = []"
  by (induction ss arbitrary: k) (simp_all add: split_beta)

lemma sent_identify [simp]: "sent (snd (identify_plant_from_path a fs p)) = []"
  by (simp add: identify_plant_from_path_def identify_try_def split_beta
      split: sum.splits list.splits option.splits)

lemma sent_download:
  "sent (trace (snd (download_photo g ev m w))) = sent (trace w) @ [processing_text g]"
  by (simp add: download_photo_def bot_reply_to_def split: option.splits list.splits sum.splits)

lemma sent_except:
  "sent (trace (snd (photo_except g ev r w))) =
     sent (trace w) @
     (case r of None \<Rightarrow> [] | Some e \<Rightarrow> [cross_mark g @ '' An error occurred: '' @ e])"
  by (simp add: photo_except_def split: option.splits)

lemma sent_finally [simp]:
  "sent (trace (snd (photo_finally ev m b r w))) = sent (trace w)"
  by (auto simp: photo_finally_def os_remove_def split: option.splits)

lemma process_photo_success:
  assumes "photo_path m \<notin> dirs w" and "open_write ev (photo_path m) = Written"
    and "identify_plant_from_path (api ev) ((files w)(photo_path m \<mapsto> d)) (photo_path m)
           = (Success rs, t)"
  shows "process_photo g ev m d w =
           bot_edit_message_text ev (format_response g rs)
             (emit t (emit [(OpenWrite (photo_path m), None)]
                (w\<lparr>files := (files w)(photo_path m \<mapsto> d)\<rparr>)))"
  using assms by (simp add: process_photo_def save_photo_def)

lemma handle_photo_success:
  assumes "download_photo g ev m w = (Inr d, w1)"
    and "photo_path m \<notin> dirs w" and "open_write ev (photo_path m) = Written"
    and "identify_plant_from_path (api ev) ((files w)(photo_path m \<mapsto> d)) (photo_path m)
           = (Success rs, t)"
  shows "trace (snd (process_photo g ev m d w1)) =
           trace w1 @ [(OpenWrite (photo_path m), None)] @ t @
           [(EditMessageText (format_response g rs),
             edit_message_text ev (format_response g rs))]"
    and "sent (trace (snd (handle_photo g ev m w))) =
           sent (trace w) @ [processing_text g, format_response g rs] @
           (case edit_message_text ev (format_response g rs) of
              None \<Rightarrow> []
            | Some e \<Rightarrow> [cross_mark g @ '' An error occurred: '' @ e])"
proof -
  have f: "files w1 = files w" "dirs w1 = dirs w"
    using download_photo_frame [of g ev m w] by (simp_all add: assms(1))
  have s: "sent (trace w1) = sent (trace w) @ [processing_text g]"
    using sent_download [of g ev m w] by (simp add: assms(1))
  have p: "process_photo g ev m d w1 =
           bot_edit_message_text ev (format_response g rs)
             (emit t (emit [(OpenWrite (photo_path m), None)]
                (w1\<lparr>files := (files w1)(photo_path m \<mapsto> d)\<rparr>)))"
    using assms(2-4) f by (intro process_photo_success) simp_all
  show "trace (snd (process_photo g ev m d w1)) =
           trace w1 @ [(OpenWrite (photo_path m), None)] @ t @
           [(EditMessageText (format_response g rs),
             edit_message_text ev (format_response g rs))]"
    by (simp add: p)
  have "sent t = []" using sent_identify [of "api ev" "(files w)(photo_path m \<mapsto> d)" "photo_path m"]
    by (simp add: assms(4))
  then show "sent (trace (snd (handle_photo g ev m w))) =
           sent (trace w) @ [processing_text g, format_response g rs] @
           (case edit_message_text ev (format_response g rs) of
              None \<Rightarrow> []
            | Some e \<Rightarrow> [cross_mark g @ '' An error occurred: '' @ e])"
    by (simp add: handle_photo_unfold assms(1) sent_except p s)
qed

lemma kb_failure_results:
  assumes "fs p \<noteq> None" and "i < min 3 (length (candidates a))" and "kb_lookup_raises a i"
  shows "\<exists>rs t. identify_plant_from_path a fs p = (Success rs, t) \<and>
           length rs = min 3 (length (candidates a)) \<and>
           rs ! i = \<lparr>info_name = name (candidates a ! i),
                     confidence = probability (candidates a ! i),
                     info_details = no_details, healing_properties = None\<rparr> \<and>
           format_plant (Suc i) (rs ! i) =
             str_nat (Suc i) @ ''. *'' @ name (candidates a ! i) @ ''*\<newline>'' @
             ''   Confidence: '' @ format_percent1 (probability (candidates a ! i)) @
             ''\<newline>\<newline>''"
proof -
  from assms(2) obtain c cs where c: "candidates a = c # cs" by (cases "candidates a") auto
  let ?tok = "access_token (projr (identify a))"
  let ?rs = "fst (collect a ?tok c 0 (take 3 (candidates a)))"
  note r = identify_success [where fs = fs and p = p, OF assms(1) c]
  have l: "length ?rs = min 3 (length (candidates a))"
    by (simp add: collect_length min.commute)
  have n: "?rs ! i = \<lparr>info_name = name (candidates a ! i),
                     confidence = probability (candidates a ! i),
                     info_details = no_details, healing_properties = None\<rparr>"
    using assms(2,3) by (simp add: collect_nth candidate_info_kb_raises)
  have f: "format_plant (Suc i) (?rs ! i) =
             str_nat (Suc i) @ ''. *'' @ name (candidates a ! i) @ ''*\<newline>'' @
             ''   Confidence: '' @ format_percent1 (probability (candidates a ! i)) @
             ''\<newline>\<newline>''"
    by (simp add: n format_plant_def no_details_def)
  show ?thesis using r l n f by blast
qed

lemma search_down_results:
  "fs p \<noteq> None \<Longrightarrow>
   identify_plant_from_path kindwise_search_down fs p =
     (Success
       [\<lparr>info_name = ''Mentha spicata'', confidence = probability mint,
         info_details = no_details, healing_properties = None\<rparr>,
        \<lparr>info_name = ''Ocimum basilicum'', confidence = probability basil,
         info_details = no_details, healing_properties = None\<rparr>],
      [(Identify p, None),
       (Search ''Mentha spicata'', Some ''timeout''),
       (Search ''Ocimum basilicum'', Some ''timeout'')])"
  by (simp add: identify_plant_from_path_def identify_try_def kindwise_search_down_def
      kindwise_up_def mint_def basil_def candidate_info_def lookup_details_def)

lemma calm_search_down_simps [simp]:
  "reply_to calm_search_down txt = None"
  "edit_message_text calm_search_down txt = None"
  "get_file calm_search_down fid = Inr ''photos/file_1.jpg''"
  "download_file calm_search_down fp = Inr ''JPEG''"
  "open_write calm_search_down path = Written"
  "remove calm_search_down path = None"
  "api calm_search_down = kindwise_search_down"
  "post calm_search_down = no_openrouter"
  by (simp_all add: calm_search_down_def calm_def)

lemma calm_openrouter_up_simps [simp]:
  "reply_to calm_openrouter_up txt = None"
  "edit_message_text calm_openrouter_up txt = None"
  "get_file calm_openrouter_up fid = Inr ''photos/file_1.jpg''"
  "download_file calm_openrouter_up fp = Inr ''JPEG''"
  "open_write calm_openrouter_up path = Written"
  "remove calm_openrouter_up path = None"
  "api calm_openrouter_up = kindwise_up"
  "post calm_openrouter_up = openrouter_up"
  by (simp_all add: calm_openrouter_up_def calm_def)

text \<open>
  The handler of plantpersona.py sends both narrative requests to the chat-completion
  endpoint: the sample request posts twice, once for the healing properties of the top
  candidate and once for its persona.
\<close>

lemma posted_persona_pp_exact:
  "common_names (info_details plant) \<noteq> Null \<Longrightarrow>
   posted (snd (get_plant_persona_pp po plant)) = 1"
  by (simp add: get_plant_persona_pp_def persona_prompt_pp_def posted_openrouter
      split: field.splits)

lemma plantpersona_posts_twice:
  "posted (trace (snd (handle_photo_pp calm_openrouter_up photo_message awaiting))) = 2"
proof -
  let ?ev = calm_openrouter_up
  let ?ident = "\<lambda>ev. identify_plant_from_path_pp (api ev) (post ev)"
  let ?persona = "\<lambda>ev. get_plant_persona_pp (post ev)"
  obtain w1 where dl: "download_photo persona_glyphs ?ev photo_message awaiting = (Inr ''JPEG'', w1)"
    by (simp add: download_sample)
  have f: "files w1 = Map.empty" "dirs w1 = {}" "posted (trace w1) = 0"
    using download_photo_frame [of persona_glyphs ?ev photo_message awaiting]
      count_download(2) [of persona_glyphs ?ev photo_message awaiting]
    by (simp_all add: dl)
  have c: "candidates kindwise_up = [mint, basil]"
    by (simp add: candidates_def kindwise_up_def)
  have ku: "\<not> isl (identify kindwise_up)" "\<not> lacks_payload kindwise_up"
    "suggestion_details mint = Value no_details" "suggestion_details basil = Value no_details"
    by (simp_all add: lacks_payload_def kindwise_up_def mint_def basil_def)
  have dm: "\<not> details_missing kindwise_up" by (simp add: details_missing_def c ku)
  have u: "top_unique kindwise_up" by (simp add: top_unique_def c mint_def basil_def)
  obtain res t where i: "?ident ?ev ((files w1)(photo_path photo_message \<mapsto> ''JPEG''))
                           (photo_path photo_message) = (res, t)"
    by (cases "?ident ?ev ((files w1)(photo_path photo_message \<mapsto> ''JPEG''))
                 (photo_path photo_message)")
  have pt: "posted t = 1"
    using posted_identify_pp [OF u, of openrouter_up
        "(files w1)(photo_path photo_message \<mapsto> ''JPEG'')" "photo_path photo_message"] i
    by (simp add: c ku)
  have "\<exists>rs. rs \<noteq> [] \<and> res = Success rs"
    using identify_pp_forms(2) [of kindwise_up openrouter_up
        "(files w1)(photo_path photo_message \<mapsto> ''JPEG'')" "photo_path photo_message"] i
    by (simp add: c ku dm)
  then obtain tp rest where r: "res = Success (tp # rest)"
    by (auto simp: neq_Nil_conv)
  have n: "info_details tp = no_details"
  proof -
    have k: "fst (identify_plant_from_path_pp kindwise_up openrouter_up
               ((files w1)(photo_path photo_message \<mapsto> ''JPEG'')) (photo_path photo_message))
             = Success (tp # rest)"
      using i r by simp
    then obtain t' where
      "collect_pp openrouter_up mint (take 3 (candidates kindwise_up)) = (Inr (tp # rest), t')"
      by (auto simp: identify_pp_unfold [where fs = "(files w1)(photo_path photo_message \<mapsto> ''JPEG'')"
            and p = "photo_path photo_message" and a = kindwise_up and c = mint and cs = "[basil]"] c
          split: prod.splits sum.splits)
    from collect_pp_nth [OF this, of 0] show ?thesis
      by (auto simp: c candidate_info_pp_def ku Let_def split: if_splits)
  qed
  have pp: "posted (snd (?persona ?ev tp)) = 1"
    by (simp add: posted_persona_pp_exact n no_details_def)
  have "trace (snd (process_photo_persona ?ident ?persona persona_glyphs ?ev photo_message
                      ''JPEG'' w1)) =
           trace w1 @ [(OpenWrite (photo_path photo_message), None)] @ t @
           [(EditMessageText (format_response_short persona_glyphs (tp # rest)), None),
            (ReplyTo channel_text, None)] @
           snd (?persona ?ev tp) @
           [(ReplyTo (plant_message_header @ fst (?persona ?ev tp)),
             reply_to ?ev (plant_message_header @ fst (?persona ?ev tp)))]"
    using i r f by (intro process_photo_persona_success(1)) simp_all
  then have "posted (trace (snd (process_photo_persona ?ident ?persona persona_glyphs ?ev
                      photo_message ''JPEG'' w1))) = 2"
    using pt pp f by simp
  then show ?thesis
    by (simp add: handle_photo_pp_def handle_photo_persona_unfold dl)
qed

section \<open>The claims\<close>

subsection \<open>C1: cleanup on every exit of handle\_photo\<close>

text \<open>
  C1. The claim has the state deleted and the temporary file gone on every exit of
  \<open>handle_photo\<close>. The finally (commented \<^verbatim>\<open># Cleanup\<close>) calls \<^verbatim>\<open>os.remove\<close> before
  \<^verbatim>\<open>bot.delete_state\<close>, so when the removal raises, the handler is left by that
  exception and the state is not deleted. Two requests of the sample user show it, for
  the handler of main.py and for the handler of papaboisfinal.py. In the first a
  directory stands at the temporary path: the open raises, the except handler replies,
  the removal raises, and the user is still awaited. In the second everything succeeds
  until the removal, which the outside refuses: the user is still awaited and the
  temporary file is still on disk, with the downloaded photo in it.
\<close>

theorem removal_failure_skips_delete_state:
  "states blocked (user_key photo_message) = Some waiting_for_photo \<and>
   photo_path photo_message \<in> dirs blocked \<and>
   fst (handle_photo main_glyphs calm photo_message blocked) =
     Some (is_a_directory ''temp_plant_42.jpg'') \<and>
   states (snd (handle_photo main_glyphs calm photo_message blocked)) (user_key photo_message)
     = Some waiting_for_photo \<and>
   fst (handle_photo_final calm photo_message blocked) =
     Some (is_a_directory ''temp_plant_42.jpg'') \<and>
   states (snd (handle_photo_final calm photo_message blocked)) (user_key photo_message)
     = Some waiting_for_photo \<and>
   states awaiting (user_key photo_message) = Some waiting_for_photo \<and>
   fst (handle_photo main_glyphs stuck photo_message awaiting) =
     Some (''[Errno 13] Permission denied: '' @ [CHR 0x27] @ ''temp_plant_42.jpg'' @ [CHR 0x27]) \<and>
   states (snd (handle_photo main_glyphs stuck photo_message awaiting)) (user_key photo_message)
     = Some waiting_for_photo \<and>
   files (snd (handle_photo main_glyphs stuck photo_message awaiting)) (photo_path photo_message)
     = Some ''JPEG'' \<and>
   states (snd (handle_photo_final stuck photo_message awaiting)) (user_key photo_message)
     = Some waiting_for_photo \<and>
   files (snd (handle_photo_final stuck photo_message awaiting)) (photo_path photo_message)
     = Some ''JPEG''"
proof -
  note p = photo_path_sample
  have d1: "download_photo g calm photo_message blocked =
              (Inr ''JPEG'', snd (download_photo g calm photo_message blocked))" for g
    by (simp add: download_sample)
  have d2: "download_photo g stuck photo_message awaiting =
              (Inr ''JPEG'', snd (download_photo g stuck photo_message awaiting))" for g
    by (simp add: download_sample)
  have e1: "temp_exists_at_cleanup calm photo_message blocked"
    by (simp add: temp_exists_at_cleanup_def p)
  have r1: "remove_raises calm blocked (photo_path photo_message)"
    by (simp add: remove_raises_def p)
  have e2: "temp_exists_at_cleanup stuck photo_message awaiting"
    by (simp add: temp_exists_at_cleanup_def p)
  have r2: "remove_raises stuck awaiting (photo_path photo_message)"
    by (simp add: remove_raises_def p)
  have c1: "cleanup_raises g calm photo_message blocked" for g
    using e1 r1 by (simp add: cleanup_raises_def d1 [THEN arg_cong, of fst])
  have c2: "cleanup_raises g stuck photo_message awaiting" for g
    using e2 r2 by (simp add: cleanup_raises_def d2 [THEN arg_cong, of fst])
  have s: "files (snd (save_photo stuck ''temp_plant_42.jpg'' ''JPEG'' w1))
             ''temp_plant_42.jpg'' = Some ''JPEG''"
    if "dirs w1 = {}" for w1
    using that by (simp add: save_photo_def)
  have w1: "dirs (snd (download_photo g stuck photo_message awaiting)) = {}" for g
    by simp
  show ?thesis
    using handle_photo_stuck [OF d1 e1 r1] handle_photo_stuck [OF d2 e2 r2]
    by (simp add: handle_photo_states handle_photo_final_def handle_photo_persona_states
        c1 c2 p s [OF w1])
qed

subsection \<open>C2: the two forms of the result of identify\_plant\_from\_path\<close>

text \<open>
  C2, as amended. \<open>identify_plant_from_path\<close> returns the error dict exactly when the
  image file does not exist, the identification request raises, the response lacks the
  result or classification payload, or the list of candidates is empty; otherwise it
  returns the success dict with a non-empty list of results. (That it never raises is the
  outer \<^verbatim>\<open>except Exception\<close>: every \<open>Inl\<close> of \<open>identify_try\<close> becomes an
  \<open>Error\<close>.) A raise of the search, the detail request or the question is not among the
  conditions: it is caught inside the loop. The function of plantpersona.py, whose loop
  has no try of its own, returns the error dict in these cases and in one more: when one
  of the candidates the loop runs over comes with \<^verbatim>\<open>details = None\<close>, on which
  \<^verbatim>\<open>plant_info.update\<close> raises TypeError.
\<close>

theorem identify_plant_from_path_forms:
  "((\<exists>msg. fst (identify_plant_from_path a fs p) = Error msg) \<longleftrightarrow>
      fs p = None \<or> isl (identify a) \<or> lacks_payload a \<or> candidates a = []) \<and>
   ((\<exists>rs. rs \<noteq> [] \<and> fst (identify_plant_from_path a fs p) = Success rs) \<longleftrightarrow>
      \<not> (fs p = None \<or> isl (identify a) \<or> lacks_payload a \<or> candidates a = [])) \<and>
   ((\<exists>msg. fst (identify_plant_from_path_pp a po fs p) = Error msg) \<longleftrightarrow>
      fs p = None \<or> isl (identify a) \<or> lacks_payload a \<or> candidates a = [] \<or>
      details_missing a) \<and>
   ((\<exists>rs. rs \<noteq> [] \<and> fst (identify_plant_from_path_pp a po fs p) = Success rs) \<longleftrightarrow>
      \<not> (fs p = None \<or> isl (identify a) \<or> lacks_payload a \<or> candidates a = [] \<or>
         details_missing a))"
  using identify_forms [of a fs p] identify_pp_forms [of a po fs p] by blast

text \<open>
  The claim as stated counts every raising service call among the causes of the error
  form. With the search down, a service call raises for an existing file, and the result
  is the success dict with both candidates.
\<close>

theorem search_failure_gives_success:
  "leaf_on_disk ''leaf.jpg'' \<noteq> None \<and>
   (Search ''Mentha spicata'', Some ''timeout'')
     \<in> set (snd (identify_plant_from_path kindwise_search_down leaf_on_disk ''leaf.jpg'')) \<and>
   fst (identify_plant_from_path kindwise_search_down leaf_on_disk ''leaf.jpg'') =
     Success
       [\<lparr>info_name = ''Mentha spicata'', confidence = probability mint,
         info_details = no_details, healing_properties = None\<rparr>,
        \<lparr>info_name = ''Ocimum basilicum'', confidence = probability basil,
         info_details = no_details, healing_properties = None\<rparr>]"
  by (simp add: identify_plant_from_path_def identify_try_def kindwise_search_down_def
      kindwise_up_def leaf_on_disk_def mint_def basil_def candidate_info_def
      lookup_details_def)

subsection \<open>C3: a missing file costs no call\<close>

text \<open>
  C3. For a path at which no regular file exists, \<open>identify_plant_from_path\<close> (of
  main.py and papaboisfinal.py, and of plantpersona.py) returns the error dict of the
  FileNotFoundError and has issued no call at all: its list of calls is empty. The
  command-line program of plantid.py ends with the same error, which it raises again
  after logging it, and has neither printed anything nor issued a call.
\<close>

theorem missing_file_no_call:
  "fs p = None \<Longrightarrow>
   identify_plant_from_path a fs p = (Error (''Image file not found: '' @ p), []) \<and>
   identify_plant_from_path_pp a po fs p = (Error (''Image file not found: '' @ p), []) \<and>
   identify_plant c fs p = (Some (''Image file not found: '' @ p), [], [])"
  by (simp add: identify_plant_from_path_def identify_try_def
      identify_plant_from_path_pp_def identify_try_pp_def identify_plant_def)

text \<open>A disk that holds one image, and a path that is not on it.\<close>

theorem missing_file_no_call_witness:
  "leaf_on_disk ''twig.jpg'' = None \<and>
   identify_plant_from_path kindwise_up leaf_on_disk ''twig.jpg''
     = (Error ''Image file not found: twig.jpg'', []) \<and>
   identify_plant_from_path_pp kindwise_up no_openrouter leaf_on_disk ''twig.jpg''
     = (Error ''Image file not found: twig.jpg'', []) \<and>
   identify_plant kindwise_cli leaf_on_disk ''twig.jpg''
     = (Some ''Image file not found: twig.jpg'', [], [])"
proof -
  have h: "leaf_on_disk ''twig.jpg'' = None"
    by (simp add: leaf_on_disk_def)
  show ?thesis
    using h
      missing_file_no_call [of leaf_on_disk "''twig.jpg''" kindwise_up no_openrouter kindwise_cli]
    by simp
qed

subsection \<open>C4: the entries of the formatted reply\<close>




subsection \<open>C5: a failed knowledge-base lookup keeps the candidate\<close>

text \<open>
  C5, as amended. When the knowledge-base lookup of the candidate at position \<open>i\<close> raises
  (the search, or the detail request after it), the identification still succeeds with
  one result per candidate, and the result at \<open>i\<close> holds the name and the confidence of
  that candidate, empty details and no healing-properties text; its entry in the reply is
  the numbered name and the confidence line and nothing else. For the top-ranked
  candidate the healing-properties text is lost together with the details, since the
  question is asked after the lookup inside the same try. The failure is not shown to the
  user: for a photo request whose download returned and whose temporary file was written,
  the calls of the try are the open, the calls of the identification, which send nothing,
  and the edit of the processing message into the formatted results of that
  identification; and all the handler of main.py sends to the user is the processing
  message and these results (and, only if the edit itself raised, the error message of
  that exception of the edit).
\<close>

theorem kb_failure_keeps_candidate:
  assumes "i < min 3 (length (candidates a))" and "kb_lookup_raises a i"
  shows "(fs p \<noteq> None \<longrightarrow>
           (\<exists>rs. fst (identify_plant_from_path a fs p) = Success rs \<and>
              length rs = min 3 (length (candidates a)) \<and>
              rs ! i = \<lparr>info_name = name (candidates a ! i),
                        confidence = probability (candidates a ! i),
                        info_details = no_details, healing_properties = None\<rparr> \<and>
              format_plant (Suc i) (rs ! i) =
                str_nat (Suc i) @ ''. *'' @ name (candidates a ! i) @ ''*\<newline>'' @
                ''   Confidence: '' @ format_percent1 (probability (candidates a ! i)) @
                ''\<newline>\<newline>'')) \<and>
         (api ev = a \<and> download_photo g ev m w = (Inr d, w1) \<and> photo_path m \<notin> dirs w \<and>
          open_write ev (photo_path m) = Written \<longrightarrow>
           (\<exists>rs t. identify_plant_from_path a ((files w)(photo_path m \<mapsto> d)) (photo_path m)
                      = (Success rs, t) \<and>
              length rs = min 3 (length (candidates a)) \<and>
              rs ! i = \<lparr>info_name = name (candidates a ! i),
                        confidence = probability (candidates a ! i),
                        info_details = no_details, healing_properties = None\<rparr> \<and>
              format_response g rs =
                results_header g @
                concat (map (\<lambda>j. format_plant (Suc j) (rs ! j)) [0..<length rs]) \<and>
              format_plant (Suc i) (rs ! i) =
                str_nat (Suc i) @ ''. *'' @ name (candidates a ! i) @ ''*\<newline>'' @
                ''   Confidence: '' @ format_percent1 (probability (candidates a ! i)) @
                ''\<newline>\<newline>'' \<and>
              sent t = [] \<and>
              trace (snd (process_photo g ev m d w1)) =
                trace w1 @ [(OpenWrite (photo_path m), None)] @ t @
                [(EditMessageText (format_response g rs),
                  edit_message_text ev (format_response g rs))] \<and>
              sent (trace (snd (handle_photo g ev m w))) =
                sent (trace w) @ [processing_text g, format_response g rs] @
                (case edit_message_text ev (format_response g rs) of
                   None \<Rightarrow> []
                 | Some e \<Rightarrow> [cross_mark g @ '' An error occurred: '' @ e])))"
proof (intro conjI impI)
  assume "fs p \<noteq> None"
  with kb_failure_results [of fs p i a] assms
  show "\<exists>rs. fst (identify_plant_from_path a fs p) = Success rs \<and>
              length rs = min 3 (length (candidates a)) \<and>
              rs ! i = \<lparr>info_name = name (candidates a ! i),
                        confidence = probability (candidates a ! i),
                        info_details = no_details, healing_properties = None\<rparr> \<and>
              format_plant (Suc i) (rs ! i) =
                str_nat (Suc i) @ ''. *'' @ name (candidates a ! i) @ ''*\<newline>'' @
                ''   Confidence: '' @ format_percent1 (probability (candidates a ! i)) @
                ''\<newline>\<newline>''" by force
next
  assume h: "api ev = a \<and> download_photo g ev m w = (Inr d, w1) \<and> photo_path m \<notin> dirs w \<and>
             open_write ev (photo_path m) = Written"
  let ?fs = "(files w)(photo_path m \<mapsto> d)"
  have "?fs (photo_path m) \<noteq> None" by simp
  with kb_failure_results [of ?fs "photo_path m" i a] assms obtain rs t where
    r: "identify_plant_from_path a ?fs (photo_path m) = (Success rs, t)"
    and l: "length rs = min 3 (length (candidates a))"
    and n: "rs ! i = \<lparr>info_name = name (candidates a ! i),
                        confidence = probability (candidates a ! i),
                        info_details = no_details, healing_properties = None\<rparr>"
    and f: "format_plant (Suc i) (rs ! i) =
                str_nat (Suc i) @ ''. *'' @ name (candidates a ! i) @ ''*\<newline>'' @
                ''   Confidence: '' @ format_percent1 (probability (candidates a ! i)) @
                ''\<newline>\<newline>''"
    by blast
  from h r have r': "identify_plant_from_path (api ev) ?fs (photo_path m) = (Success rs, t)"
    by simp
  from h have dl: "download_photo g ev m w = (Inr d, w1)" and nd: "photo_path m \<notin> dirs w"
    and ow: "open_write ev (photo_path m) = Written"
    by simp_all
  note hs = handle_photo_success [OF dl nd ow r']
  have st: "sent t = []"
    using sent_identify [of a ?fs "photo_path m"] by (simp add: r)
  have fr: "format_response g rs =
              results_header g @
              concat (map (\<lambda>j. format_plant (Suc j) (rs ! j)) [0..<length rs])"
    by (simp add: format_response_def format_loop_concat)
  show "\<exists>rs t. identify_plant_from_path a ?fs (photo_path m) = (Success rs, t) \<and>
              length rs = min 3 (length (candidates a)) \<and>
              rs ! i = \<lparr>info_name = name (candidates a ! i),
                        confidence = probability (candidates a ! i),
                        info_details = no_details, healing_properties = None\<rparr> \<and>
              format_response g rs =
                results_header g @
                concat (map (\<lambda>j. format_plant (Suc j) (rs ! j)) [0..<length rs]) \<and>
              format_plant (Suc i) (rs ! i) =
                str_nat (Suc i) @ ''. *'' @ name (candidates a ! i) @ ''*\<newline>'' @
                ''   Confidence: '' @ format_percent1 (probability (candidates a ! i)) @
                ''\<newline>\<newline>'' \<and>
              sent t = [] \<and>
              trace (snd (process_photo g ev m d w1)) =
                trace w1 @ [(OpenWrite (photo_path m), None)] @ t @
                [(EditMessageText (format_response g rs),
                  edit_message_text ev (format_response g rs))] \<and>
              sent (trace (snd (handle_photo g ev m w))) =
                sent (trace w) @ [processing_text g, format_response g rs] @
                (case edit_message_text ev (format_response g rs) of
                   None \<Rightarrow> []
                 | Some e \<Rightarrow> [cross_mark g @ '' An error occurred: '' @ e])"
    using r l n fr f st hs by blast
qed

text \<open>
  The claim as stated has the failed lookup cost the detail fields only. For the top
  candidate it costs the healing properties as well: the two clients below differ only in
  that the search of the first one raises where the search of the second one finds
  nothing, so both leave the details empty, and only the second one yields the
  healing-properties text.
\<close>

theorem search_failure_drops_healing_properties:
  "kb_lookup_raises kindwise_search_down 0 \<and>
   fst (candidate_info kindwise_search_down ''tok'' mint 0 mint) =
     \<lparr>info_name = ''Mentha spicata'', confidence = probability mint,
      info_details = no_details, healing_properties = None\<rparr> \<and>
   fst (candidate_info kindwise_up ''tok'' mint 0 mint) =
     \<lparr>info_name = ''Mentha spicata'', confidence = probability mint,
      info_details = no_details, healing_properties = Some ''Soothes the stomach''\<rparr>"
  by (simp add: kb_lookup_raises_def kindwise_search_down_def kindwise_up_def mint_def
      candidate_info_def lookup_details_def ask_healing_def)

text \<open>
  The second sample candidate, with the search down; and the sample photo request with
  the search down, in which the user is sent the processing message and the two entries.
\<close>

theorem kb_failure_keeps_candidate_witness:
  "(1::nat) < min 3 (length (candidates kindwise_search_down)) \<and>
   kb_lookup_raises kindwise_search_down 1 \<and>
   leaf_on_disk ''leaf.jpg'' \<noteq> None \<and>
   (\<exists>rs. fst (identify_plant_from_path kindwise_search_down leaf_on_disk ''leaf.jpg'') = Success rs \<and>
          length rs = 2 \<and>
          rs ! 1 = \<lparr>info_name = ''Ocimum basilicum'', confidence = probability basil,
                    info_details = no_details, healing_properties = None\<rparr> \<and>
          format_plant 2 (rs ! 1) =
            ''2. *Ocimum basilicum*\<newline>   Confidence: 1.0%\<newline>\<newline>'') \<and>
   api calm_search_down = kindwise_search_down \<and>
   fst (download_photo main_glyphs calm_search_down photo_message awaiting) = Inr ''JPEG'' \<and>
   photo_path photo_message \<notin> dirs awaiting \<and>
   open_write calm_search_down (photo_path photo_message) = Written \<and>
   sent (trace (snd (handle_photo main_glyphs calm_search_down photo_message awaiting))) =
     [processing_text main_glyphs,
      results_header main_glyphs @
      ''1. *Mentha spicata*\<newline>   Confidence: 98.7%\<newline>\<newline>'' @
      ''2. *Ocimum basilicum*\<newline>   Confidence: 1.0%\<newline>\<newline>'']"
proof -
  have h1: "leaf_on_disk ''leaf.jpg'' \<noteq> None" by (simp add: leaf_on_disk_def)
  have c: "candidates kindwise_search_down = [mint, basil]"
    by (simp add: candidates_def kindwise_search_down_def kindwise_up_def)
  have h2: "(1::nat) < min 3 (length (candidates kindwise_search_down))" by (simp add: c)
  have h3: "kb_lookup_raises kindwise_search_down 1"
    by (simp add: kb_lookup_raises_def kindwise_search_down_def)
  have pm: "probability mint = float_of (987 / 1000)" "probability basil = float_of (1 / 100)"
    "name mint = ''Mentha spicata''" "name basil = ''Ocimum basilicum''"
    by (simp_all add: mint_def basil_def)
  obtain w1 where dl: "download_photo main_glyphs calm_search_down photo_message awaiting
                         = (Inr ''JPEG'', w1)"
    by (simp add: download_sample)
  note t = kb_failure_keeps_candidate [where i = 1 and a = kindwise_search_down
      and fs = leaf_on_disk and p = "''leaf.jpg''"
      and ev = calm_search_down and g = main_glyphs and m = photo_message and w = awaiting
      and d = "''JPEG''" and ?w1.0 = w1, OF h2 h3]
  from t h1 have a: "\<exists>rs. fst (identify_plant_from_path kindwise_search_down leaf_on_disk ''leaf.jpg'') = Success rs \<and>
          length rs = 2 \<and>
          rs ! 1 = \<lparr>info_name = ''Ocimum basilicum'', confidence = probability basil,
                    info_details = no_details, healing_properties = None\<rparr> \<and>
          format_plant 2 (rs ! 1) =
            ''2. *Ocimum basilicum*\<newline>   Confidence: 1.0%\<newline>\<newline>''"
    by (simp add: c pm format_samples str_nat_small numeral_2_eq_2)
  let ?fs = "(files awaiting)(photo_path photo_message \<mapsto> ''JPEG'')"
  let ?rs = "[\<lparr>info_name = ''Mentha spicata'', confidence = probability mint,
         info_details = no_details, healing_properties = None\<rparr>,
        \<lparr>info_name = ''Ocimum basilicum'', confidence = probability basil,
         info_details = no_details, healing_properties = None\<rparr>]"
  have i: "fst (identify_plant_from_path kindwise_search_down ?fs (photo_path photo_message))
             = Success ?rs"
    by (simp add: search_down_results)
  from t dl obtain rs u where
    r: "identify_plant_from_path kindwise_search_down ?fs (photo_path photo_message)
          = (Success rs, u)"
    and s: "sent (trace (snd (handle_photo main_glyphs calm_search_down photo_message awaiting))) =
              sent (trace awaiting) @
              [processing_text main_glyphs, format_response main_glyphs rs] @
              (case edit_message_text calm_search_down (format_response main_glyphs rs) of
                 None \<Rightarrow> []
               | Some e \<Rightarrow> [cross_mark main_glyphs @ '' An error occurred: '' @ e])"
    by (auto simp: photo_path_sample)
  from r i have e: "rs = ?rs" by simp
  have f: "format_response main_glyphs ?rs =
             results_header main_glyphs @
             ''1. *Mentha spicata*\<newline>   Confidence: 98.7%\<newline>\<newline>'' @
             ''2. *Ocimum basilicum*\<newline>   Confidence: 1.0%\<newline>\<newline>''"
    by (simp add: format_response_def format_plant_def no_details_def pm format_samples
        str_nat_small)
  have s': "sent (trace (snd (handle_photo main_glyphs calm_search_down photo_message awaiting))) =
     [processing_text main_glyphs,
      results_header main_glyphs @
      ''1. *Mentha spicata*\<newline>   Confidence: 98.7%\<newline>\<newline>'' @
      ''2. *Ocimum basilicum*\<newline>   Confidence: 1.0%\<newline>\<newline>'']"
    using s unfolding e f by simp
  show ?thesis
    using h1 h2 h3 a dl s' by (simp add: photo_path_sample)
qed

subsection \<open>C6: the persona falls back to a placeholder\<close>

text \<open>
  C6, as amended. \<open>get_plant_persona\<close> never raises (its except handler turns every
  \<open>Inl\<close> of the try into a placeholder), and whenever the generation fails, that is the
  prompt cannot be built, the post raises, the status is not 200, or the body does not
  hold the content, it returns one of the fixed placeholder strings, none of which is
  empty; this holds for papaboisfinal.py (two placeholders) and for plantpersona.py
  (three, two of them from \<open>get_openrouter_response\<close>). On an answer with status 200
  that holds a content, each of the three functions returns that content as it is, after
  the one post that fetched it. The reply to the user is still sent: on the path on
  which the results were sent, the calls of \<open>process_photo_persona\<close> are the open, the
  calls of the identification, the edit, the announcement, the calls of the persona
  function, and last the reply that carries what the persona function returned.
\<close>

theorem persona_placeholder_on_failure:
  "((case persona_prompt plant of Inl e \<Rightarrow> True | Inr prompt \<Rightarrow> request_fails po prompt) \<longrightarrow>
      fst (get_plant_persona po plant) \<in> {meditation_text, communing_text}) \<and>
   ((case persona_prompt_pp plant of Inl e \<Rightarrow> True | Inr prompt \<Rightarrow> request_fails po prompt) \<longrightarrow>
      fst (get_plant_persona_pp po plant) \<in> {quiet_text, veiled_text, eludes_text}) \<and>
   (request_fails po prompt \<longrightarrow>
      fst (get_openrouter_response po prompt) \<in> {quiet_text, veiled_text}) \<and>
   meditation_text \<noteq> [] \<and> communing_text \<noteq> [] \<and> quiet_text \<noteq> [] \<and> veiled_text \<noteq> [] \<and>
   eludes_text \<noteq> [] \<and>
   (po prompt = Inr r \<and> status_code r = 200 \<and> content r = Inr c \<longrightarrow>
      get_openrouter_response po prompt = (c, [(Post prompt, None)]) \<and>
      (persona_prompt plant = Inr prompt \<longrightarrow>
         get_plant_persona po plant = (c, [(Post prompt, None)])) \<and>
      (persona_prompt_pp plant = Inr prompt \<longrightarrow>
         get_plant_persona_pp po plant = (c, [(Post prompt, None)]))) \<and>
   (photo_path m \<notin> dirs w \<and> open_write ev (photo_path m) = Written \<and>
    ident ev ((files w)(photo_path m \<mapsto> d)) (photo_path m) = (Success (tp # rest), t) \<and>
    edit_message_text ev (format_response_short g (tp # rest)) = None \<and>
    reply_to ev channel_text = None \<longrightarrow>
      trace (snd (process_photo_persona ident persona g ev m d w)) =
        trace w @ [(OpenWrite (photo_path m), None)] @ t @
        [(EditMessageText (format_response_short g (tp # rest)), None),
         (ReplyTo channel_text, None)] @
        snd (persona ev tp) @
        [(ReplyTo (plant_message_header @ fst (persona ev tp)),
          reply_to ev (plant_message_header @ fst (persona ev tp)))])"
  using process_photo_persona_success(1) [where m = m and w = w and ev = ev and ident = ident
      and d = d and tp = tp and rest = rest and t = t and g = g and persona = persona]
    persona_placeholder [where plant = plant and po = po]
    persona_pp_placeholder [where plant = plant and po = po]
    openrouter_placeholder [where po = po and prompt = prompt]
    answer_returned(1) [where po = po and prompt = prompt and r = r and c = c]
    answer_returned(2,3) [where po = po and prompt = prompt and r = r and c = c
      and plant = plant]
  by (simp add: placeholders_nonempty)

text \<open>
  The claim as stated is about every input. An answer with status 200 and an empty
  content is returned as it is: the persona is the empty string, not a placeholder.
\<close>

theorem empty_answer_gives_empty_persona:
  "fst (get_plant_persona openrouter_silent mint_info) = [] \<and>
   fst (get_plant_persona_pp openrouter_silent mint_info) = [] \<and>
   meditation_text \<noteq> [] \<and> communing_text \<noteq> []"
  by (simp add: get_plant_persona_def persona_try_def get_plant_persona_pp_def
      get_openrouter_response_def openrouter_try_def openrouter_silent_def
      persona_prompt_def persona_prompt_pp_def mint_info_def no_details_def
      meditation_text_def communing_text_def)

text \<open>
  A post that raises, an answer with status 503, a prompt that cannot be built, and an
  answer with status 200.
\<close>

theorem persona_placeholder_on_failure_witness:
  "request_fails no_openrouter ''hello'' \<and>
   request_fails openrouter_busy ''hello'' \<and>
   fst (get_openrouter_response no_openrouter ''hello'') = veiled_text \<and>
   fst (get_openrouter_response openrouter_busy ''hello'') = quiet_text \<and>
   fst (get_plant_persona no_openrouter mint_info) = communing_text \<and>
   fst (get_plant_persona openrouter_busy mint_info) = meditation_text \<and>
   fst (get_plant_persona_pp no_openrouter (mint_info\<lparr>info_details := \<lparr>common_names = Null, description = Absent\<rparr>\<rparr>)) = eludes_text \<and>
   openrouter_up ''hello'' = Inr \<lparr>status_code = 200, content = Inr ''I am mint.''\<rparr> \<and>
   get_openrouter_response openrouter_up ''hello'' = (''I am mint.'', [(Post ''hello'', None)])"
proof -
  have f: "request_fails no_openrouter x" "request_fails openrouter_busy x" for x
    by (simp_all add: request_fails_def no_openrouter_def openrouter_busy_def)
  have e: "fst (get_plant_persona_pp no_openrouter
             (mint_info\<lparr>info_details := \<lparr>common_names = Null, description = Absent\<rparr>\<rparr>)) = eludes_text"
    by (simp add: get_plant_persona_pp_def persona_prompt_pp_def)
  have v: "veiled_text \<noteq> quiet_text" "meditation_text \<noteq> communing_text"
    by (simp_all add: veiled_text_def quiet_text_def meditation_text_def communing_text_def)
  have a: "fst (get_openrouter_response no_openrouter ''hello'') = veiled_text"
    by (simp add: get_openrouter_response_def openrouter_try_def no_openrouter_def)
  have b: "fst (get_openrouter_response openrouter_busy ''hello'') = quiet_text"
    by (simp add: get_openrouter_response_def openrouter_try_def openrouter_busy_def)
  have c: "fst (get_plant_persona no_openrouter mint_info) = communing_text"
    by (simp add: get_plant_persona_def persona_try_def no_openrouter_def split: sum.splits)
  have d: "fst (get_plant_persona openrouter_busy mint_info) = meditation_text"
    by (simp add: get_plant_persona_def persona_try_def openrouter_busy_def persona_prompt_def
        mint_info_def no_details_def)
  have u: "openrouter_up ''hello'' = Inr \<lparr>status_code = 200, content = Inr ''I am mint.''\<rparr>"
    by (simp add: openrouter_up_def)
  have g: "get_openrouter_response openrouter_up ''hello'' = (''I am mint.'', [(Post ''hello'', None)])"
    using u
      persona_placeholder_on_failure [where po = openrouter_up and prompt = "''hello''"
        and r = "\<lparr>status_code = 200, content = Inr ''I am mint.''\<rparr>" and c = "''I am mint.''"]
    by simp
  show ?thesis
    using f [of "''hello''"] a b c d e u g
      persona_placeholder_on_failure [where plant = mint_info and po = no_openrouter]
    by simp
qed

subsection \<open>C7: input that is not a photo, while a photo is awaited\<close>

text \<open>
  C7, as amended. For a message of content type text, document, audio or video that is
  not a /start or /whois\_plant command, from a user whose state is
  \<open>waiting_for_photo\<close>, the bot runs \<open>handle_invalid_input\<close>: the one call it issues
  is the reply with the fixed rejection text, and the states and the files are as
  before, so the user is still awaited. This holds for the bot of every file.
\<close>

theorem invalid_input_rejected:
  assumes "states w (user_key m) = Some waiting_for_photo"
    and "content_type m \<in> set [''text'', ''document'', ''audio'', ''video'']"
    and "\<not> (content_type m = ''text'' \<and>
             (command m = Some ''start'' \<or> command m = Some ''whois_plant''))"
  shows "dispatch on_photo g ev m w = handle_invalid_input g ev m w \<and>
         trace (snd (dispatch on_photo g ev m w)) =
           trace w @ [(ReplyTo (rejection_text g), reply_to ev (rejection_text g))] \<and>
         states (snd (dispatch on_photo g ev m w)) = states w \<and>
         files (snd (dispatch on_photo g ev m w)) = files w"
proof -
  from assms(2) have "content_type m \<noteq> ''photo''" by auto
  with assms have "dispatch on_photo g ev m w = handle_invalid_input g ev m w"
    by (auto simp: dispatch_def)
  then show ?thesis by (simp add: handle_invalid_input_def)
qed

text \<open>
  The claim as stated is about every content type but photo. A sticker from a waiting
  user is taken by no handler: nothing is sent and nothing changes. And a /start
  command, which is a text message, gets the welcome text.
\<close>

theorem sticker_and_start_not_rejected:
  "states awaiting (user_key sticker_message) = Some waiting_for_photo \<and>
   main_bot calm sticker_message awaiting = (None, awaiting) \<and>
   final_bot calm sticker_message awaiting = (None, awaiting) \<and>
   states awaiting (user_key start_message) = Some waiting_for_photo \<and>
   trace (snd (main_bot calm start_message awaiting)) = [(ReplyTo (welcome_text main_glyphs), None)]"
  by (simp add: main_bot_def final_bot_def dispatch_def sticker_message_def
      start_message_def user_key_def cmd_start_def)

text \<open>The sample text message from the waiting user.\<close>

theorem invalid_input_rejected_witness:
  "states awaiting (user_key text_message) = Some waiting_for_photo \<and>
   content_type text_message \<in> set [''text'', ''document'', ''audio'', ''video''] \<and>
   command text_message = None \<and>
   trace (snd (main_bot calm text_message awaiting)) =
     [(ReplyTo (rejection_text main_glyphs), None)] \<and>
   states (snd (main_bot calm text_message awaiting)) = states awaiting"
proof -
  have h1: "states awaiting (user_key text_message) = Some waiting_for_photo"
    by simp
  have h2: "content_type text_message \<in> set [''text'', ''document'', ''audio'', ''video'']"
    by (simp add: text_message_def)
  have h3: "command text_message = None" by (simp add: text_message_def)
  have h4: "\<not> (content_type text_message = ''text'' \<and>
             (command text_message = Some ''start'' \<or> command text_message = Some ''whois_plant''))"
    by (simp add: h3)
  have r: "trace (snd (dispatch (handle_photo main_glyphs) main_glyphs calm text_message awaiting)) =
             trace awaiting @
             [(ReplyTo (rejection_text main_glyphs), reply_to calm (rejection_text main_glyphs))] \<and>
           states (snd (dispatch (handle_photo main_glyphs) main_glyphs calm text_message awaiting)) =
             states awaiting"
    using invalid_input_rejected [OF h1 h2 h4] by blast
  show ?thesis
    using h1 h2 h3 r by (simp add: main_bot_def)
qed

subsection \<open>C8: the transitions of the conversation state\<close>

text \<open>
  C8, as amended. For every message and every world, the states after the bot has
  handled the message are: with the /whois\_plant command, the sender is awaited (from
  idle or from awaiting); with a photo from an awaited sender, the sender is idle again,
  whatever the try of the photo handler met, unless the removal of the temporary file
  raises in the finally (the case of C1, in which \<^verbatim>\<open>bot.delete_state\<close> is not reached
  and the states stay as they were); in every other case, input that is not a photo from
  an awaited sender included, the states are unchanged. No other user is ever touched.
  This holds for the bot of main.py and the bot of papaboisfinal.py.
\<close>

theorem conversation_state_transitions:
  "states (snd (main_bot ev m w)) =
     (if content_type m = ''text'' \<and> command m = Some ''whois_plant''
      then (states w)(user_key m \<mapsto> waiting_for_photo)
      else if content_type m = ''photo'' \<and> states w (user_key m) = Some waiting_for_photo \<and>
              \<not> cleanup_raises main_glyphs ev m w
      then (states w)(user_key m := None)
      else states w) \<and>
   states (snd (final_bot ev m w)) =
     (if content_type m = ''text'' \<and> command m = Some ''whois_plant''
      then (states w)(user_key m \<mapsto> waiting_for_photo)
      else if content_type m = ''photo'' \<and> states w (user_key m) = Some waiting_for_photo \<and>
              \<not> cleanup_raises persona_glyphs ev m w
      then (states w)(user_key m := None)
      else states w)"
  by (simp add: main_bot_def final_bot_def dispatch_def cmd_start_def cmd_whois_plant_def
      handle_invalid_input_def handle_photo_states handle_photo_final_def
      handle_photo_persona_states)

text \<open>
  The claim as stated moves an awaited user back to idle on input that is not a photo.
  After the sample text message the user is still awaited.
\<close>

theorem text_input_keeps_awaiting:
  "states awaiting (user_key text_message) = Some waiting_for_photo \<and>
   content_type text_message = ''text'' \<and>
   states (snd (main_bot calm text_message awaiting)) (user_key text_message)
     = Some waiting_for_photo \<and>
   states (snd (final_bot calm text_message awaiting)) (user_key text_message)
     = Some waiting_for_photo"
proof -
  have c: "content_type text_message = ''text''" "command text_message = None"
    by (simp_all add: text_message_def)
  show ?thesis
    by (simp add: main_bot_def final_bot_def dispatch_def c handle_invalid_input_def)
qed

subsection \<open>C9: the narrative request and the top candidate\<close>




subsection \<open>C10: the temporary path depends on the user alone\<close>



end
